theory Spec2Isabelle
  imports Main "HOL-Library.Word" "HOL-Library.Sublist"
begin

section \<open>Values, exceptions and dictionaries of the Python program\<close>

text \<open>
  The integration is Python. A status field of the device (one entry of
  \<^verbatim>\<open>coordinator.data\<close>) is a JSON scalar or a byte string; the model has one
  constructor per Python type that the source distinguishes with \<^verbatim>\<open>isinstance\<close>,
  truthiness, \<^verbatim>\<open>==\<close>, \<^verbatim>\<open>>=\<close> or \<^verbatim>\<open>len\<close>. Floats and nested containers are not modelled.
\<close>

type_synonym byte = "8 word"

datatype pyval = VNone | VBool bool | VInt int | VStr string | VBytes "byte list"

text \<open>
  Exceptions are values. \<open>OtherError\<close> stands for whatever the transport raises
  (the Tuya client is an external collaborator); its text identifies the exception.
\<close>

datatype error =
    NameError string
  | TypeError
  | ValueError string
  | IndexError
  | AttributeError
  | OtherError string

definition bindE :: "error + 'a \<Rightarrow> ('a \<Rightarrow> error + 'b) \<Rightarrow> error + 'b" where
  "bindE m f = (case m of Inl e \<Rightarrow> Inl e | Inr x \<Rightarrow> f x)"

text \<open>\<^verbatim>\<open>decoded[i]\<close> for a non-negative index: IndexError out of range.\<close>

definition item :: "byte list \<Rightarrow> nat \<Rightarrow> error + byte" where
  "item decoded i = (if i < length decoded then Inr (decoded ! i) else Inl IndexError)"

text \<open>\<^verbatim>\<open>bool(v)\<close>, the test of \<^verbatim>\<open>if v:\<close> and \<^verbatim>\<open>not v\<close>.\<close>

fun truthy :: "pyval \<Rightarrow> bool" where
  "truthy VNone = False"
| "truthy (VBool b) = b"
| "truthy (VInt i) = (i \<noteq> 0)"
| "truthy (VStr s) = (s \<noteq> [])"
| "truthy (VBytes bs) = (bs \<noteq> [])"

text \<open>\<^verbatim>\<open>v == n\<close> for an integer literal \<open>n\<close>: \<^verbatim>\<open>True == 1\<close> and \<^verbatim>\<open>False == 0\<close> hold in Python.\<close>

fun eq_int :: "pyval \<Rightarrow> int \<Rightarrow> bool" where
  "eq_int (VInt i) n = (i = n)"
| "eq_int (VBool b) n = ((if b then 1 else 0) = n)"
| "eq_int _ n = False"

text \<open>\<^verbatim>\<open>v == s\<close> for a string literal \<open>s\<close>; a byte string never equals a \<^verbatim>\<open>str\<close>.\<close>

fun eq_str :: "pyval \<Rightarrow> string \<Rightarrow> bool" where
  "eq_str (VStr t) s = (t = s)"
| "eq_str _ s = False"

text \<open>\<^verbatim>\<open>v >= n\<close> for an integer literal: TypeError on \<^verbatim>\<open>None\<close>, \<^verbatim>\<open>str\<close> and \<^verbatim>\<open>bytes\<close>.\<close>

fun ge_int :: "pyval \<Rightarrow> int \<Rightarrow> error + bool" where
  "ge_int (VInt i) n = Inr (n \<le> i)"
| "ge_int (VBool b) n = Inr (n \<le> (if b then 1 else 0))"
| "ge_int _ n = Inl TypeError"

text \<open>\<^verbatim>\<open>isinstance(v, int)\<close>: \<^verbatim>\<open>bool\<close> is a subclass of \<^verbatim>\<open>int\<close>.\<close>

fun is_int :: "pyval \<Rightarrow> bool" where
  "is_int (VInt i) = True"
| "is_int (VBool b) = True"
| "is_int _ = False"

text \<open>
  A dictionary with string keys is an association list read with \<open>map_of\<close>;
  \<^verbatim>\<open>d.get(k, default)\<close> is \<open>dict_get\<close>.
\<close>

type_synonym pydict = "(string \<times> pyval) list"

definition dict_get :: "pydict \<Rightarrow> string \<Rightarrow> pyval \<Rightarrow> pyval" where
  "dict_get d k dflt = (case map_of d k of None \<Rightarrow> dflt | Some v \<Rightarrow> v)"

section \<open>The status decoder (vacuum.py, lines 53 to 197)\<close>

datatype RobovacState =
  CLEANING | ROOM_CLEANING | PAUSED | RETURNING | DOCKED | ERROR | UNKNOWN

text \<open>
  \<^verbatim>\<open>_get_docked_substatus\<close>. The second top-level \<^verbatim>\<open>if\<close> of the source (the
  \<open>0x0a\<close> family) is \<open>docked_substatus_0a\<close>; the \<open>0x10\<close> block reaches it when neither
  of its branches returns.
\<close>

definition docked_substatus_0a :: "byte list \<Rightarrow> byte \<Rightarrow> byte \<Rightarrow> error + string" where
  "docked_substatus_0a decoded byte1 byte2 =
     (if byte1 = 0x0a \<and> byte2 = 0x00 then
        (if 5 \<le> length decoded then
           bindE (item decoded 3) (\<lambda>b3.
             if b3 = 0x10 then
               bindE (item decoded 4) (\<lambda>b4.
                 if b4 = 0x09 then
                   (if 12 \<le> length decoded then
                      bindE (item decoded 11) (\<lambda>b11.
                        if b11 = 0x3a then Inr ''mop_washing_pre''
                        else Inr ''water_refilling'')
                    else Inr ''water_refilling'')
                 else Inr ''idle'')
             else Inr ''idle'')
         else Inr ''idle'')
      else Inr ''idle'')"

definition get_docked_substatus :: "byte list \<Rightarrow> error + string" where
  "get_docked_substatus decoded =
     (if length decoded < 3 then Inr ''unknown''
      else
        bindE (item decoded 1) (\<lambda>byte1.
        bindE (item decoded 2) (\<lambda>byte2.
          if byte1 = 0x10 then
            (if byte2 = 0x03 then
               (if 5 \<le> length decoded then
                  bindE (item decoded 4) (\<lambda>b4.
                    if b4 = 0x00 then Inr ''charging''
                    else if b4 = 0x02 then Inr ''fully_charged''
                    else Inr ''charging'')
                else Inr ''charging'')
             else if byte2 = 0x09 then
               (if 4 \<le> length decoded then
                  bindE (item decoded 3) (\<lambda>byte3.
                    if byte3 = 0xfa then Inr ''dust_collecting''
                    else if byte3 = 0x1a then Inr ''mop_drying''
                    else if byte3 = 0x3a then Inr ''mop_washing''
                    else Inr ''mop_operations'')
                else Inr ''mop_operations'')
             else docked_substatus_0a decoded byte1 byte2)
          else docked_substatus_0a decoded byte1 byte2)))"

text \<open>
  The \<^verbatim>\<open>if byte1 == 0x0a:\<close> block of \<^verbatim>\<open>decode_dps153_to_state\<close> (lines 110 to 128).
  \<open>None\<close> means that the block did not return and control falls to the next rule.
\<close>

definition block_0a ::
  "byte list \<Rightarrow> byte \<Rightarrow> byte \<Rightarrow> error + (RobovacState \<times> string) option" where
  "block_0a decoded byte1 byte2 =
     (if byte1 = 0x0a then
        (if 5 \<le> length decoded then
           bindE (item decoded 3) (\<lambda>byte3.
           bindE (item decoded 4) (\<lambda>byte4.
             if byte2 = 0x00 then
               (if byte3 = 0x10 \<and> byte4 = 0x05 then
                  (if 7 \<le> length decoded then
                     bindE (item decoded 6) (\<lambda>b6.
                       if b6 = 0x02 then Inr (Some (PAUSED, ''paused''))
                       else Inr (Some (CLEANING, ''cleaning'')))
                   else Inr (Some (CLEANING, ''cleaning'')))
                else if byte3 = 0x10 \<and> byte4 = 0x09 then
                  bindE (get_docked_substatus decoded) (\<lambda>substatus.
                    Inr (Some (DOCKED, substatus)))
                else Inr None)
             else Inr None))
         else Inr None)
      else Inr None)"

text \<open>The returning rule (lines 131 to 133).\<close>

definition block_returning ::
  "byte list \<Rightarrow> byte \<Rightarrow> byte \<Rightarrow> error + (RobovacState \<times> string) option" where
  "block_returning decoded byte1 byte2 =
     (if byte1 = 0x10 \<and> byte2 = 0x07 then
        (if 4 \<le> length decoded then
           bindE (item decoded 3) (\<lambda>b3.
             if b3 = 0x42 then Inr (Some (RETURNING, ''returning'')) else Inr None)
         else Inr None)
      else Inr None)"

text \<open>
  Lines 106 to 142, the ordered rules, as a function of the values of the three
  names they read: \<^verbatim>\<open>byte0\<close>, \<^verbatim>\<open>byte1\<close> and \<^verbatim>\<open>byte2\<close>.
\<close>

definition decode_rules ::
  "byte list \<Rightarrow> byte \<Rightarrow> byte \<Rightarrow> byte \<Rightarrow> error + (RobovacState \<times> string)" where
  "decode_rules decoded byte0 byte1 byte2 =
     (if byte0 = 0x06 \<and> byte1 = 0x10 \<and> byte2 = 0x03 then Inr (ROOM_CLEANING, ''cleaning'')
      else
        bindE (block_0a decoded byte1 byte2) (\<lambda>r.
          case r of Some res \<Rightarrow> Inr res
          | None \<Rightarrow>
              bindE (block_returning decoded byte1 byte2) (\<lambda>r.
                case r of Some res \<Rightarrow> Inr res
                | None \<Rightarrow>
                    if byte1 = 0x10 then
                      bindE (get_docked_substatus decoded) (\<lambda>substatus.
                        Inr (DOCKED, substatus))
                    else Inr (DOCKED, ''idle''))))"

text \<open>
  Line 106 reads the name \<^verbatim>\<open>byte0\<close>. The function assigns \<^verbatim>\<open>byte1\<close> (line 95)
  and \<^verbatim>\<open>byte2\<close> (line 96) only; \<^verbatim>\<open>byte0\<close> is not a parameter, is assigned nowhere
  in the function or the module, is not imported and is not a builtin. Reading it
  raises NameError, as the first operand of the condition, before any comparison.
\<close>

definition load_byte0 :: "error + byte" where
  "load_byte0 = Inl (NameError ''byte0'')"

text \<open>The body of the \<^verbatim>\<open>try\<close> from line 91 on, for a byte string.\<close>

definition decode_bytes :: "byte list \<Rightarrow> error + (RobovacState \<times> string)" where
  "decode_bytes decoded =
     (if length decoded < 3 then Inr (UNKNOWN, ''unknown'')
      else
        bindE (item decoded 1) (\<lambda>byte1.
        bindE (item decoded 2) (\<lambda>byte2.
        bindE load_byte0 (\<lambda>byte0.
          decode_rules decoded byte0 byte1 byte2))))"

text \<open>
  The body of the \<^verbatim>\<open>try\<close> (lines 85 to 142). \<open>b64decode\<close> is the standard library's
  \<^verbatim>\<open>base64.b64decode\<close>, a parameter: it returns bytes or raises. Anything that is
  neither \<^verbatim>\<open>str\<close> nor \<^verbatim>\<open>bytes\<close> reaches \<^verbatim>\<open>len(decoded)\<close>, a TypeError for
  \<^verbatim>\<open>None\<close>, \<^verbatim>\<open>bool\<close> and \<^verbatim>\<open>int\<close>.
\<close>

fun decode_try :: "(string \<Rightarrow> error + byte list) \<Rightarrow> pyval \<Rightarrow> error + (RobovacState \<times> string)" where
  "decode_try b64decode (VStr s) = bindE (b64decode s) decode_bytes"
| "decode_try b64decode (VBytes bs) = decode_bytes bs"
| "decode_try b64decode _ = Inl TypeError"

text \<open>
  \<^verbatim>\<open>decode_dps153_to_state\<close>: \<^verbatim>\<open>except Exception\<close> (lines 144 to 146) turns every
  exception of the body into \<^verbatim>\<open>(UNKNOWN, "error")\<close>.
\<close>

definition decode_dps153_to_state ::
  "(string \<Rightarrow> error + byte list) \<Rightarrow> pyval \<Rightarrow> error + (RobovacState \<times> string)" where
  "decode_dps153_to_state b64decode dps153_value =
     (case decode_try b64decode dps153_value of
        Inl e \<Rightarrow> Inr (UNKNOWN, ''error'')
      | Inr res \<Rightarrow> Inr res)"

section \<open>Fan speed tables (vacuum.py, lines 24 to 42 and 431 to 449)\<close>

text \<open>
  The two dictionary literals, in source order. No key occurs twice in either
  (\<open>fan_speed_keys_distinct\<close>), so \<open>map_of\<close> reads them as Python does.
\<close>

definition HA_TO_EUFY_FAN_SPEED_MAP :: "(string \<times> (string \<times> string)) list" where
  "HA_TO_EUFY_FAN_SPEED_MAP =
     [(''Quiet'', (''gentle'', ''Quiet'')),
      (''Standard'', (''normal'', ''Standard'')),
      (''Turbo'', (''strong'', ''Turbo'')),
      (''Maximum'', (''max'', ''Max''))]"

definition EUFY_TO_HA_FAN_SPEED_MAP :: "(string \<times> string) list" where
  "EUFY_TO_HA_FAN_SPEED_MAP =
     [(''gentle'', ''Quiet''),
      (''normal'', ''Standard''),
      (''strong'', ''Turbo''),
      (''max'', ''Maximum''),
      (''Quiet'', ''Quiet''),
      (''Standard'', ''Standard''),
      (''Turbo'', ''Turbo''),
      (''Max'', ''Maximum''),
      (''middle'', ''Standard'')]"

text \<open>\<^verbatim>\<open>fan_speed_list\<close>: the four levels offered to the user.\<close>

definition fan_speed_list :: "string list" where
  "fan_speed_list = [''Quiet'', ''Standard'', ''Turbo'', ''Maximum'']"

text \<open>
  \<^verbatim>\<open>raw_speed and raw_speed in EUFY_TO_HA_FAN_SPEED_MAP\<close>, then the lookup: only a
  non-empty \<^verbatim>\<open>str\<close> can be a key of the table.
\<close>

fun eufy_to_ha :: "pyval \<Rightarrow> string option" where
  "eufy_to_ha (VStr raw_speed) =
     (if raw_speed \<noteq> [] then map_of EUFY_TO_HA_FAN_SPEED_MAP raw_speed else None)"
| "eufy_to_ha _ = None"

text \<open>
  The \<^verbatim>\<open>fan_speed\<close> property: field 9 first, field 158 as the fallback;
  \<open>None\<close> for the data when the coordinator has none.
\<close>

definition fan_speed :: "pydict option \<Rightarrow> string option" where
  "fan_speed data =
     (case data of
        None \<Rightarrow> None
      | Some d \<Rightarrow>
          (if d = [] then None
           else case eufy_to_ha (dict_get d ''9'' VNone) of
                  Some level \<Rightarrow> Some level
                | None \<Rightarrow> eufy_to_ha (dict_get d ''158'' VNone)))"

section \<open>Strings that the program builds\<close>

text \<open>\<^verbatim>\<open>str(n)\<close> for an integer: decimal digits, a minus sign for a negative one.\<close>

fun str_nat :: "nat \<Rightarrow> string" where
  "str_nat n =
     (if n < 10 then [''0123456789'' ! n]
      else str_nat (n div 10) @ [''0123456789'' ! (n mod 10)])"

declare str_nat.simps [simp del]

definition str_int :: "int \<Rightarrow> string" where
  "str_int i = (if i < 0 then CHR ''-'' # str_nat (nat (- i)) else str_nat (nat i))"

text \<open>
  \<^verbatim>\<open>str(b)\<close> for a byte string is its \<^verbatim>\<open>repr\<close>: \<^verbatim>\<open>b'...'\<close>, in double quotes when
  the bytes hold a single quote and no double quote, with backslash escapes.
\<close>

definition hex2 :: "byte \<Rightarrow> string" where
  "hex2 b = [''0123456789abcdef'' ! (unat b div 16), ''0123456789abcdef'' ! (unat b mod 16)]"

definition repr_byte :: "byte \<Rightarrow> byte \<Rightarrow> string" where
  "repr_byte quote b =
     (if b = quote \<or> b = 0x5C then [CHR 0x5C, char_of (unat b)]
      else if b = 0x09 then [CHR 0x5C, CHR ''t'']
      else if b = 0x0A then [CHR 0x5C, CHR ''n'']
      else if b = 0x0D then [CHR 0x5C, CHR ''r'']
      else if b < 0x20 \<or> 0x7F \<le> b then [CHR 0x5C, CHR ''x''] @ hex2 b
      else [char_of (unat b)])"

definition bytes_repr :: "byte list \<Rightarrow> string" where
  "bytes_repr bs =
     (let quote = (if 0x27 \<in> set bs \<and> 0x22 \<notin> set bs then 0x22 else 0x27 :: byte)
      in [CHR ''b'', char_of (unat quote)] @ concat (map (repr_byte quote) bs)
           @ [char_of (unat quote)])"

fun py_str :: "pyval \<Rightarrow> string" where
  "py_str VNone = ''None''"
| "py_str (VBool b) = (if b then ''True'' else ''False'')"
| "py_str (VInt i) = str_int i"
| "py_str (VStr s) = s"
| "py_str (VBytes bs) = bytes_repr bs"

text \<open>\<^verbatim>\<open>sep.join(xs)\<close>.\<close>

fun join :: "string \<Rightarrow> string list \<Rightarrow> string" where
  "join sep [] = []"
| "join sep [x] = x"
| "join sep (x # y # ys) = x @ sep @ join sep (y # ys)"

section \<open>The entity and its collaborators (vacuum.py, lines 44 to 50 and 233 to 693)\<close>

text \<open>
  \<^verbatim>\<open>S1_PRO_COMMANDS\<close>, and \<^verbatim>\<open>S1_PRO_COMMANDS[k]\<close>: the source indexes the table with
  the four literal keys only, so the KeyError of a missing key has no branch.
\<close>

definition S1_PRO_COMMANDS :: "(string \<times> string) list" where
  "S1_PRO_COMMANDS =
     [(''start'', ''AA==''), (''cleaning'', ''AggO''), (''pause'', ''AggN''), (''return'', ''AggG'')]"

definition command_of :: "string \<Rightarrow> string" where
  "command_of k = (case map_of S1_PRO_COMMANDS k of Some c \<Rightarrow> c | None \<Rightarrow> [])"

datatype VacuumActivity =
  ACT_CLEANING | ACT_DOCKED | ACT_IDLE | ACT_PAUSED | ACT_RETURNING | ACT_ERROR

text \<open>
  The state that the entity's methods read and write. \<open>data\<close> is
  \<^verbatim>\<open>coordinator.data\<close> (\<open>None\<close> before the first poll), \<open>room_mappings\<close> is the entry
  of \<^verbatim>\<open>CONF_ROOM_MAPPINGS\<close> in the options of the config entry (\<open>None\<close> when the
  key is absent), \<open>was_paused\<close> is \<^verbatim>\<open>_was_paused\<close>, the paused shadow flag.
  \<open>writes\<close> is the device's side: every \<^verbatim>\<open>tuya_client.async_set\<close> attempted so far,
  oldest first, each with its outcome (\<open>None\<close>: the write succeeded, \<open>Some e\<close>: it
  raised \<open>e\<close>). \<^verbatim>\<open>_last_command_time\<close> and the sleeps are time and are left out.
\<close>

record vacuum =
  data :: "pydict option"
  room_mappings :: "pydict option"
  last_command :: "string option"
  was_paused :: bool
  substatus :: "string option"
  detected_state :: "RobovacState option"
  writes :: "(pydict \<times> error option) list"

text \<open>
  The collaborators, as parameters: the standard library's \<^verbatim>\<open>b64decode\<close>; the
  transport, which decides from the writes so far and the payload whether a write
  raises; and the poll, which gives the data that a refresh installs.
  \<^verbatim>\<open>async_request_refresh\<close> itself does not raise (the coordinator logs a failed
  update).
\<close>

record env =
  base64_decode :: "string \<Rightarrow> error + byte list"
  device_write :: "(pydict \<times> error option) list \<Rightarrow> pydict \<Rightarrow> error option"
  device_poll :: "pydict option \<Rightarrow> (pydict \<times> error option) list \<Rightarrow> pydict option"

text \<open>A method is a state transformer that returns a value or raises.\<close>

type_synonym 'a action = "vacuum \<Rightarrow> (error + 'a) \<times> vacuum"

definition returnS :: "'a \<Rightarrow> 'a action" where
  "returnS x = (\<lambda>s. (Inr x, s))"

definition raiseS :: "error \<Rightarrow> 'a action" where
  "raiseS e = (\<lambda>s. (Inl e, s))"

definition liftE :: "error + 'a \<Rightarrow> 'a action" where
  "liftE r = (\<lambda>s. (r, s))"

definition modify :: "(vacuum \<Rightarrow> vacuum) \<Rightarrow> unit action" where
  "modify f = (\<lambda>s. (Inr (), f s))"

definition bindS :: "'a action \<Rightarrow> ('a \<Rightarrow> 'b action) \<Rightarrow> 'b action" where
  "bindS m f = (\<lambda>s. case m s of (Inl e, s') \<Rightarrow> (Inl e, s') | (Inr x, s') \<Rightarrow> f x s')"

text \<open>\<^verbatim>\<open>try: m except Exception as e: h(e)\<close>: the state changes of \<open>m\<close> stay.\<close>

definition try_except :: "'a action \<Rightarrow> (error \<Rightarrow> 'a action) \<Rightarrow> 'a action" where
  "try_except m h = (\<lambda>s. case m s of (Inl e, s') \<Rightarrow> h e s' | (Inr x, s') \<Rightarrow> (Inr x, s'))"

text \<open>\<^verbatim>\<open>await self.coordinator.tuya_client.async_set(payload)\<close>.\<close>

definition async_set :: "env \<Rightarrow> pydict \<Rightarrow> unit action" where
  "async_set E payload =
     (\<lambda>s. let outcome = device_write E (writes s) payload;
              s' = s\<lparr>writes := writes s @ [(payload, outcome)]\<rparr>
          in case outcome of None \<Rightarrow> (Inr (), s') | Some e \<Rightarrow> (Inl e, s'))"

text \<open>\<^verbatim>\<open>await self.coordinator.async_request_refresh()\<close>.\<close>

definition async_request_refresh :: "env \<Rightarrow> unit action" where
  "async_request_refresh E = modify (\<lambda>s. s\<lparr>data := device_poll E (data s) (writes s)\<rparr>)"

subsection \<open>The \<^verbatim>\<open>activity\<close> property (lines 274 to 360)\<close>

text \<open>Lines 303 to 322: the flag update and the value returned for a decoded state.\<close>

definition activity_of_state :: "RobovacState \<Rightarrow> VacuumActivity option action" where
  "activity_of_state st =
     (case st of
        CLEANING \<Rightarrow>
          bindS (modify (\<lambda>s. s\<lparr>was_paused := False\<rparr>)) (\<lambda>_. returnS (Some ACT_CLEANING))
      | ROOM_CLEANING \<Rightarrow>
          bindS (modify (\<lambda>s. s\<lparr>was_paused := False\<rparr>)) (\<lambda>_. returnS (Some ACT_CLEANING))
      | PAUSED \<Rightarrow>
          bindS (modify (\<lambda>s. s\<lparr>was_paused := True\<rparr>)) (\<lambda>_. returnS (Some ACT_PAUSED))
      | RETURNING \<Rightarrow>
          bindS (modify (\<lambda>s. s\<lparr>was_paused := False\<rparr>)) (\<lambda>_. returnS (Some ACT_RETURNING))
      | DOCKED \<Rightarrow>
          bindS (modify (\<lambda>s. s\<lparr>was_paused := False\<rparr>)) (\<lambda>_. returnS (Some ACT_DOCKED))
      | ERROR \<Rightarrow> returnS (Some ACT_ERROR)
      | UNKNOWN \<Rightarrow> returnS (Some ACT_IDLE))"

text \<open>Lines 326 to 360: the fallback on fields 152, 6, 7 and 8.\<close>

definition activity_fallback :: "pydict \<Rightarrow> VacuumActivity option action" where
  "activity_fallback d =
     (let dps152 = dict_get d ''152'' (VStr []);
          dps6 = dict_get d ''6'' (VInt 0);
          dps7 = dict_get d ''7'' (VInt 0)
      in
        if eq_str dps152 (command_of ''cleaning'') \<or> eq_str dps152 ''AggO'' then
          bindS (modify (\<lambda>s. s\<lparr>was_paused := False\<rparr>)) (\<lambda>_. returnS (Some ACT_CLEANING))
        else if eq_str dps152 (command_of ''pause'') \<or> eq_str dps152 ''AggN'' then
          bindS (modify (\<lambda>s. s\<lparr>was_paused := True\<rparr>)) (\<lambda>_. returnS (Some ACT_PAUSED))
        else if eq_str dps152 (command_of ''return'') \<or> eq_str dps152 ''AggG'' then
          bindS (modify (\<lambda>s. s\<lparr>was_paused := False\<rparr>)) (\<lambda>_. returnS (Some ACT_RETURNING))
        else if eq_int dps6 2 \<and> eq_int dps7 3 then
          bindS (modify (\<lambda>s. s\<lparr>was_paused := False\<rparr>)) (\<lambda>_. returnS (Some ACT_CLEANING))
        else if eq_int dps6 3 \<and> eq_int dps7 4 then
          bindS (modify (\<lambda>s. s\<lparr>was_paused := True\<rparr>)) (\<lambda>_. returnS (Some ACT_PAUSED))
        else if eq_int dps6 1 \<and> eq_int dps7 2 then
          bindS (modify (\<lambda>s. s\<lparr>was_paused := False\<rparr>)) (\<lambda>_. returnS (Some ACT_RETURNING))
        else if eq_int dps6 0 \<and> eq_int dps7 0 then
          bindS (liftE (ge_int (dict_get d ''8'' (VInt 0)) 95)) (\<lambda>full.
            if full then returnS (Some ACT_DOCKED) else returnS (Some ACT_IDLE))
        else returnS (Some ACT_IDLE))"

definition activity :: "env \<Rightarrow> VacuumActivity option action" where
  "activity E =
     (\<lambda>s. case data s of
            None \<Rightarrow> (Inr None, s)
          | Some d \<Rightarrow>
              if d = [] then (Inr None, s)
              else
                (let dps6 = dict_get d ''6'' (VInt 0);
                     dps153 = dict_get d ''153'' (VStr [])
                 in
                   if is_int dps6 \<and> ge_int dps6 100 = Inr True then
                     (Inr (Some ACT_ERROR),
                      s\<lparr>detected_state := Some ERROR, substatus := Some ''error''\<rparr>)
                   else if truthy dps153 then
                     bindS (liftE (decode_dps153_to_state (base64_decode E) dps153))
                       (\<lambda>(detected, sub).
                     bindS (modify (\<lambda>s. s\<lparr>detected_state := Some detected,
                                            substatus := Some sub\<rparr>)) (\<lambda>_.
                     activity_of_state detected)) s
                   else activity_fallback d s))"

text \<open>The \<^verbatim>\<open>error_code\<close> property (lines 421 to 429).\<close>

definition error_code :: "vacuum \<Rightarrow> string option" where
  "error_code s =
     (case data s of
        None \<Rightarrow> None
      | Some d \<Rightarrow>
          if d = [] then None
          else
            (let code = dict_get d ''6'' VNone
             in if is_int code \<and> ge_int code 100 = Inr True then Some (py_str code)
                else None))"

subsection \<open>The command methods (lines 451 to 693)\<close>

text \<open>
  \<^verbatim>\<open>_send_command\<close>: the write of field 152, the mode write of field 5 for the
  start, pause and return tokens, then a refresh. The handler logs and re-raises.
\<close>

definition send_command :: "env \<Rightarrow> string \<Rightarrow> unit action" where
  "send_command E command =
     try_except
       (bindS (modify (\<lambda>s. s\<lparr>last_command := Some command\<rparr>)) (\<lambda>_.
        bindS (async_set E [(''152'', VStr command)]) (\<lambda>_.
        bindS (if command = command_of ''start'' then async_set E [(''5'', VStr ''smart'')]
               else if command = command_of ''pause'' then async_set E [(''5'', VStr ''pause'')]
               else if command = command_of ''return'' then async_set E [(''5'', VStr ''charge'')]
               else returnS ()) (\<lambda>_.
        async_request_refresh E))))
       (\<lambda>e. raiseS e)"

text \<open>
  \<^verbatim>\<open>async_turn_on\<close>, the fresh start. \<^verbatim>\<open>_is_running()\<close> after the last refresh
  only chooses a log line, reads the data and cannot raise; it is left out.
\<close>

definition async_turn_on :: "env \<Rightarrow> unit action" where
  "async_turn_on E =
     try_except
       (bindS (modify (\<lambda>s. s\<lparr>was_paused := False\<rparr>)) (\<lambda>_.
        bindS (send_command E (command_of ''start'')) (\<lambda>_.
        bindS (send_command E (command_of ''cleaning'')) (\<lambda>_.
        async_request_refresh E))))
       (\<lambda>e. raiseS e)"

text \<open>
  \<^verbatim>\<open>async_start\<close>: it evaluates the \<^verbatim>\<open>activity\<close> property first, then reads fields
  152 and 153 with \<^verbatim>\<open>coordinator.data.get\<close>, an AttributeError when the data is
  \<^verbatim>\<open>None\<close>.
\<close>

definition async_start :: "env \<Rightarrow> unit action" where
  "async_start E =
     bindS (activity E) (\<lambda>act. \<lambda>s.
       case data s of
         None \<Rightarrow> (Inl AttributeError, s)
       | Some d \<Rightarrow>
           (let current_dps152 = dict_get d ''152'' (VStr []);
                current_dps153 = dict_get d ''153'' (VStr [])
            in
              bindS (if truthy current_dps153 then
                       bindS (liftE (decode_dps153_to_state (base64_decode E) current_dps153))
                         (\<lambda>(detected, sub). returnS (detected = PAUSED))
                     else returnS False) (\<lambda>is_paused_by_dps153. \<lambda>s.
                if act = Some ACT_PAUSED \<or> was_paused s \<or> is_paused_by_dps153
                   \<or> eq_str current_dps152 (command_of ''pause'') then
                  bindS (send_command E (command_of ''cleaning'')) (\<lambda>_.
                    modify (\<lambda>s. s\<lparr>was_paused := False\<rparr>)) s
                else async_turn_on E s) s))"

text \<open>\<^verbatim>\<open>async_pause\<close>: the handler logs, resets the flag and returns.\<close>

definition async_pause :: "env \<Rightarrow> unit action" where
  "async_pause E =
     try_except
       (bindS (modify (\<lambda>s. s\<lparr>was_paused := True\<rparr>)) (\<lambda>_.
        send_command E (command_of ''pause'')))
       (\<lambda>e. modify (\<lambda>s. s\<lparr>was_paused := False\<rparr>))"

definition async_stop :: "env \<Rightarrow> unit action" where
  "async_stop E = async_pause E"

definition async_turn_off :: "env \<Rightarrow> unit action" where
  "async_turn_off E = async_pause E"

text \<open>\<^verbatim>\<open>async_return_to_base\<close>: the handler logs and returns.\<close>

definition async_return_to_base :: "env \<Rightarrow> unit action" where
  "async_return_to_base E =
     try_except
       (bindS (modify (\<lambda>s. s\<lparr>was_paused := False\<rparr>)) (\<lambda>_.
        send_command E (command_of ''return'')))
       (\<lambda>e. returnS ())"

text \<open>The two messages of \<^verbatim>\<open>_handle_clean_room_command\<close> (lines 637 to 657).\<close>

definition no_room_mappings_message :: string where
  "no_room_mappings_message =
     ''No room mappings configured. Please add room mappings by:\<newline>''
     @ ''1. Go to Settings -> Devices & Services -> Eufy RoboVac S1 Pro\<newline>''
     @ ''2. Click 'Configure' on the integration\<newline>''
     @ ''3. Add your room mappings in JSON format\<newline>''
     @ ''\<newline>''
     @ ''To get DPS 173 values:\<newline>''
     @ ''1. Enable debug logging for custom_components.eufy_robovac_s1_pro\<newline>''
     @ ''2. Use the Eufy app to start cleaning a specific room\<newline>''
     @ ''3. Find the DPS 173 value in Home Assistant logs\<newline>''
     @ ''4. Add it to the room mappings configuration''"

definition room_not_found_message :: "pyval \<Rightarrow> pydict \<Rightarrow> string" where
  "room_not_found_message room_id room_dps173_map =
     (let available_rooms = join '', '' (map fst room_dps173_map)
      in ''Room ID '' @ [CHR 0x27] @ py_str room_id @ [CHR 0x27]
           @ '' not found in configured rooms. ''
           @ ''Available rooms: ''
           @ (if available_rooms \<noteq> [] then available_rooms else ''none'') @ ''. ''
           @ ''Please add this room via Settings -> Devices & Services -> ''
           @ ''Eufy RoboVac S1 Pro -> Configure.'')"

text \<open>
  \<^verbatim>\<open>_handle_clean_room_command\<close>. \<^verbatim>\<open>not params or "room_id" not in params\<close> is the
  absence of the key (an empty or missing dictionary has no key). The room table
  is \<^verbatim>\<open>options.get(CONF_ROOM_MAPPINGS, {})\<close>; its keys are strings, distinct, in
  insertion order.
\<close>

definition handle_clean_room_command :: "env \<Rightarrow> pydict option \<Rightarrow> unit action" where
  "handle_clean_room_command E params =
     (\<lambda>s. case (case params of None \<Rightarrow> None | Some ps \<Rightarrow> map_of ps ''room_id'') of
            None \<Rightarrow> (Inl (ValueError ''room_id parameter is required''), s)
          | Some room_id \<Rightarrow>
              (let room_dps173_map = (case room_mappings s of None \<Rightarrow> [] | Some m \<Rightarrow> m)
               in
                 if room_dps173_map = [] then (Inl (ValueError no_room_mappings_message), s)
                 else
                   (case map_of room_dps173_map (py_str room_id) of
                      None \<Rightarrow>
                        (Inl (ValueError (room_not_found_message room_id room_dps173_map)), s)
                    | Some dps173_value \<Rightarrow>
                        try_except
                          (bindS (async_set E [(''173'', dps173_value)]) (\<lambda>_.
                           bindS (modify (\<lambda>s. s\<lparr>was_paused := False\<rparr>)) (\<lambda>_.
                           bindS (send_command E (command_of ''start'')) (\<lambda>_.
                           bindS (send_command E (command_of ''cleaning'')) (\<lambda>_.
                           async_request_refresh E)))))
                          (\<lambda>e. raiseS e) s)))"

text \<open>\<^verbatim>\<open>async_send_command\<close>: \<^verbatim>\<open>clean_room\<close> is the only command.\<close>

definition async_send_command :: "env \<Rightarrow> string \<Rightarrow> pydict option \<Rightarrow> unit action" where
  "async_send_command E command params =
     (if command = ''clean_room'' then handle_clean_room_command E params
      else raiseS (ValueError (''Unsupported command: '' @ command)))"

text \<open>
  \<^verbatim>\<open>__init__\<close> (lines 246 to 253): the entity as constructed, for the data and the
  options given, with a device that has received no write yet.
\<close>

definition init_vacuum :: "pydict option \<Rightarrow> pydict option \<Rightarrow> vacuum" where
  "init_vacuum d opts =
     \<lparr>data = d, room_mappings = opts, last_command = None, was_paused = False,
      substatus = None, detected_state = None, writes = []\<rparr>"

subsection \<open>Concrete collaborators for the examples\<close>

text \<open>
  Three transports: one on which every write succeeds, one on which every write
  raises, and one on which exactly the second write raises. Their poll leaves the
  data as it is. The examples hold byte strings or no field 153, so \<^verbatim>\<open>b64decode\<close>
  is never called in them; it answers as for the empty string.
\<close>

definition reliable_env :: env where
  "reliable_env =
     \<lparr>base64_decode = (\<lambda>s. Inr []),
      device_write = (\<lambda>history payload. None),
      device_poll = (\<lambda>d history. d)\<rparr>"

definition failing_env :: env where
  "failing_env =
     \<lparr>base64_decode = (\<lambda>s. Inr []),
      device_write = (\<lambda>history payload. Some (OtherError ''timeout'')),
      device_poll = (\<lambda>d history. d)\<rparr>"

definition second_write_fails_env :: env where
  "second_write_fails_env =
     \<lparr>base64_decode = (\<lambda>s. Inr []),
      device_write = (\<lambda>history payload.
         if length history = 1 then Some (OtherError ''timeout'') else None),
      device_poll = (\<lambda>d history. d)\<rparr>"

subsection \<open>Write traces\<close>

text \<open>
  Two properties of the writes that a run of a method adds to the device's log, used
  to state how a failed write ends a run. \<open>propagates new r\<close>: every write of \<open>new\<close>
  but the last succeeded, and if the last one raised \<open>e\<close> then the run ended by
  raising \<open>e\<close>. \<open>run_propagates m s\<close>: the run of \<open>m\<close> from \<open>s\<close> keeps the log it
  found, adds some writes \<open>new\<close> to it, and \<open>propagates new\<close> holds of its result.
\<close>

definition propagates :: "(pydict \<times> error option) list \<Rightarrow> error + 'a \<Rightarrow> bool" where
  "propagates new r =
     (list_all (\<lambda>w. snd w = None) (butlast new)
      \<and> (new = [] \<or> (case snd (last new) of None \<Rightarrow> True | Some e \<Rightarrow> r = Inl e)))"

definition run_propagates :: "'a action \<Rightarrow> vacuum \<Rightarrow> bool" where
  "run_propagates m s =
     (\<exists>new. writes (snd (m s)) = writes s @ new \<and> propagates new (fst (m s)))"

section \<open>The decoder: results\<close>

lemma item_in_range: "i < length decoded \<Longrightarrow> item decoded i = Inr (decoded ! i)"
  by (simp add: item_def)

lemma docked_substatus_0a_returns: "\<exists>s. docked_substatus_0a decoded b1 b2 = Inr s"
  by (simp add: docked_substatus_0a_def bindE_def item_def)

lemma get_docked_substatus_returns: "\<exists>s. get_docked_substatus decoded = Inr s"
proof (cases "length decoded < 3")
  case True
  then show ?thesis by (simp add: get_docked_substatus_def)
next
  case False
  then have 1: "item decoded 1 = Inr (decoded ! 1)" and 2: "item decoded 2 = Inr (decoded ! 2)"
    by (simp_all add: item_def)
  from False show ?thesis
    using docked_substatus_0a_returns [of decoded "decoded ! 1" "decoded ! 2"]
    by (auto simp add: get_docked_substatus_def bindE_def 1 2 item_def)
qed

lemma block_0a_returns: "\<exists>r. block_0a decoded b1 b2 = Inr r"
  using get_docked_substatus_returns [of decoded]
  by (auto simp add: block_0a_def bindE_def item_def)

lemma block_returning_returns: "\<exists>r. block_returning decoded b1 b2 = Inr r"
  by (simp add: block_returning_def bindE_def item_def)

lemma decode_rules_returns: "\<exists>st sub. decode_rules decoded b0 b1 b2 = Inr (st, sub)"
proof -
  obtain r where r: "block_0a decoded b1 b2 = Inr r"
    using block_0a_returns by blast
  obtain q where q: "block_returning decoded b1 b2 = Inr q"
    using block_returning_returns by blast
  obtain s where s: "get_docked_substatus decoded = Inr s"
    using get_docked_substatus_returns by blast
  show ?thesis
    by (cases r; cases q) (auto simp add: decode_rules_def bindE_def r q s)
qed

lemma decode_bytes_long:
  "3 \<le> length decoded \<Longrightarrow> decode_bytes decoded = Inl (NameError ''byte0'')"
  by (simp add: decode_bytes_def bindE_def item_def load_byte0_def)

lemma decode_try_cases:
  "decode_try b64decode v = Inr res \<Longrightarrow> res = (UNKNOWN, ''unknown'')"
proof (cases v)
  case (VStr s)
  assume a: "decode_try b64decode v = Inr res"
  show ?thesis
  proof (cases "b64decode s")
    case (Inl e)
    with a VStr show ?thesis by (simp add: bindE_def)
  next
    case (Inr decoded)
    with a VStr have "decode_bytes decoded = Inr res" by (simp add: bindE_def)
    then show ?thesis
      by (cases "length decoded < 3") (simp_all add: decode_bytes_long, simp add: decode_bytes_def)
  qed
next
  case (VBytes decoded)
  assume "decode_try b64decode v = Inr res"
  with VBytes have "decode_bytes decoded = Inr res" by simp
  then show ?thesis
    by (cases "length decoded < 3") (simp_all add: decode_bytes_long, simp add: decode_bytes_def)
qed simp_all

text \<open>
  C8. A byte blob shorter than three bytes, the empty one included, decodes to
  \<^verbatim>\<open>(UNKNOWN, "unknown")\<close>.
\<close>

theorem decode_short_blob:
  "length blob < 3 \<Longrightarrow>
     decode_dps153_to_state b64decode (VBytes blob) = Inr (UNKNOWN, ''unknown'')"
  by (simp add: decode_dps153_to_state_def decode_bytes_def)

theorem decode_short_blob_witness:
  "length [0x06, 0x10 :: byte] < 3 \<and>
     decode_dps153_to_state (\<lambda>s. Inr []) (VBytes [0x06, 0x10]) = Inr (UNKNOWN, ''unknown'')"
  using decode_short_blob [of "[0x06, 0x10]" "\<lambda>s. Inr []"] by simp

lemma decode_long_blob:
  "3 \<le> length blob \<Longrightarrow>
     decode_dps153_to_state b64decode (VBytes blob) = Inr (UNKNOWN, ''error'')"
  by (simp add: decode_dps153_to_state_def decode_bytes_long)

lemma decode_state_unknown: "\<exists>sub. decode_dps153_to_state b64decode v = Inr (UNKNOWN, sub)"
proof (cases "decode_try b64decode v")
  case (Inl e)
  then show ?thesis by (simp add: decode_dps153_to_state_def)
next
  case (Inr res)
  then show ?thesis
    using decode_try_cases [OF Inr] by (simp add: decode_dps153_to_state_def)
qed

text \<open>
  What the rules of lines 106 to 142 compute once \<^verbatim>\<open>byte0\<close> has a value: with
  \<^verbatim>\<open>decoded[0]\<close> for it, the room-cleaning rule and the cleaning and paused rules
  give the results that the comments of the source announce.
\<close>

lemma decode_rules_room_cleaning:
  "decode_rules decoded 0x06 0x10 0x03 = Inr (ROOM_CLEANING, ''cleaning'')"
  by (simp add: decode_rules_def)

lemma decode_rules_cleaning:
  "decode_rules [0x00, 0x0a, 0x00, 0x10, 0x05] 0x00 0x0a 0x00 = Inr (CLEANING, ''cleaning'')"
  by (simp add: decode_rules_def block_0a_def bindE_def item_def)

lemma decode_rules_paused:
  "decode_rules [0x00, 0x0a, 0x00, 0x10, 0x05, 0x00, 0x02] 0x00 0x0a 0x00 = Inr (PAUSED, ''paused'')"
  by (simp add: decode_rules_def block_0a_def bindE_def item_def)

text \<open>
  C1. The claim: a blob that starts \<open>06 10 03\<close> decodes to
  \<^verbatim>\<open>(ROOM_CLEANING, "cleaning")\<close>. The code at the blob \<open>06 10 03 1a 02 08 01\<close> of
  the source's own comment: the read of the unbound \<^verbatim>\<open>byte0\<close> raises, the handler
  answers \<^verbatim>\<open>(UNKNOWN, "error")\<close>.
\<close>

theorem decode_room_cleaning_blob:
  "decode_dps153_to_state b64decode (VBytes [0x06, 0x10, 0x03, 0x1a, 0x02, 0x08, 0x01])
     = Inr (UNKNOWN, ''error'')"
  by (simp add: decode_long_blob)

text \<open>
  C2. The claim: a blob with \<open>0a 00 10 05\<close> at offsets 1 to 4 decodes to
  \<^verbatim>\<open>(CLEANING, "cleaning")\<close>, and to \<^verbatim>\<open>(PAUSED, "paused")\<close> when it has a seventh
  byte \<open>02\<close>. The code at both blobs answers \<^verbatim>\<open>(UNKNOWN, "error")\<close>: the same read
  of \<^verbatim>\<open>byte0\<close> comes first.
\<close>

theorem decode_cleaning_paused_blob:
  "decode_dps153_to_state b64decode (VBytes [0x00, 0x0a, 0x00, 0x10, 0x05])
     = Inr (UNKNOWN, ''error'') \<and>
   decode_dps153_to_state b64decode (VBytes [0x00, 0x0a, 0x00, 0x10, 0x05, 0x00, 0x02])
     = Inr (UNKNOWN, ''error'')"
  by (simp add: decode_long_blob)

text \<open>
  C3. For every input value (\<^verbatim>\<open>str\<close>, \<^verbatim>\<open>bytes\<close> or anything else) and whatever
  \<^verbatim>\<open>b64decode\<close> does, \<^verbatim>\<open>decode_dps153_to_state\<close> returns a pair and raises nothing;
  the state of the pair is UNKNOWN or DOCKED. No read of the blob is out of range:
  the body never ends in IndexError, and the rules and the docked sub-decoder
  return for every blob and every value of the bytes they are given.
\<close>

theorem decode_total:
  "(\<exists>st sub. decode_dps153_to_state b64decode v = Inr (st, sub) \<and> (st = UNKNOWN \<or> st = DOCKED))
   \<and> decode_bytes blob \<noteq> Inl IndexError
   \<and> (\<exists>st sub. decode_rules blob b0 b1 b2 = Inr (st, sub))
   \<and> (\<exists>sub. get_docked_substatus blob = Inr sub)"
proof -
  have a: "\<exists>st sub. decode_dps153_to_state b64decode v = Inr (st, sub) \<and> (st = UNKNOWN \<or> st = DOCKED)"
    using decode_state_unknown [of b64decode v] by blast
  have b: "decode_bytes blob \<noteq> Inl IndexError"
    by (cases "length blob < 3") (simp add: decode_bytes_def, simp add: decode_bytes_long)
  show ?thesis
    using a b decode_rules_returns [of blob b0 b1 b2] get_docked_substatus_returns [of blob]
    by blast
qed

section \<open>Fan speed tables: results\<close>

lemma fan_speed_keys_distinct:
  "distinct (map fst HA_TO_EUFY_FAN_SPEED_MAP) \<and> distinct (map fst EUFY_TO_HA_FAN_SPEED_MAP)"
  by (simp add: HA_TO_EUFY_FAN_SPEED_MAP_def EUFY_TO_HA_FAN_SPEED_MAP_def)

lemma ha_to_eufy_cases:
  "map_of HA_TO_EUFY_FAN_SPEED_MAP level = Some (p, s) \<Longrightarrow>
     (level = ''Quiet'' \<and> p = ''gentle'' \<and> s = ''Quiet'')
   \<or> (level = ''Standard'' \<and> p = ''normal'' \<and> s = ''Standard'')
   \<or> (level = ''Turbo'' \<and> p = ''strong'' \<and> s = ''Turbo'')
   \<or> (level = ''Maximum'' \<and> p = ''max'' \<and> s = ''Max'')"
  unfolding HA_TO_EUFY_FAN_SPEED_MAP_def
  by (auto split: if_splits)

lemma eufy_to_ha_values:
  "map_of EUFY_TO_HA_FAN_SPEED_MAP ''gentle'' = Some ''Quiet''"
  "map_of EUFY_TO_HA_FAN_SPEED_MAP ''normal'' = Some ''Standard''"
  "map_of EUFY_TO_HA_FAN_SPEED_MAP ''strong'' = Some ''Turbo''"
  "map_of EUFY_TO_HA_FAN_SPEED_MAP ''max'' = Some ''Maximum''"
  "map_of EUFY_TO_HA_FAN_SPEED_MAP ''Quiet'' = Some ''Quiet''"
  "map_of EUFY_TO_HA_FAN_SPEED_MAP ''Standard'' = Some ''Standard''"
  "map_of EUFY_TO_HA_FAN_SPEED_MAP ''Turbo'' = Some ''Turbo''"
  "map_of EUFY_TO_HA_FAN_SPEED_MAP ''Max'' = Some ''Maximum''"
  "map_of EUFY_TO_HA_FAN_SPEED_MAP ''middle'' = Some ''Standard''"
  by (simp_all add: EUFY_TO_HA_FAN_SPEED_MAP_def)

lemma fan_speed_single:
  "token \<noteq> [] \<Longrightarrow> fan_speed (Some [(''9'', VStr token)]) = map_of EUFY_TO_HA_FAN_SPEED_MAP token"
  "token \<noteq> [] \<Longrightarrow> map_of EUFY_TO_HA_FAN_SPEED_MAP token = Some level \<Longrightarrow>
     fan_speed (Some [(''158'', VStr token)]) = Some level"
  by (simp_all add: fan_speed_def dict_get_def split: option.splits)

lemma fan_speed_forward_back:
  assumes h: "map_of HA_TO_EUFY_FAN_SPEED_MAP level = Some (p, s)"
  shows "map_of EUFY_TO_HA_FAN_SPEED_MAP p = Some level
     \<and> map_of EUFY_TO_HA_FAN_SPEED_MAP s = Some level
     \<and> fan_speed (Some [(''9'', VStr p)]) = Some level
     \<and> fan_speed (Some [(''158'', VStr s)]) = Some level"
  using ha_to_eufy_cases [OF h]
  by (elim disjE conjE) (simp_all add: eufy_to_ha_values fan_speed_single)

lemma eufy_to_ha_range: "map_of EUFY_TO_HA_FAN_SPEED_MAP token = Some level \<Longrightarrow>
       level \<in> set fan_speed_list"
  unfolding EUFY_TO_HA_FAN_SPEED_MAP_def fan_speed_list_def
  by (auto split: if_splits)

text \<open>
  C7. Each of the four levels goes to its token pair and back: both tokens of the
  pair are keys of the reverse table with that level as value, and \<^verbatim>\<open>fan_speed\<close>
  reads the level from either field. The legacy token \<^verbatim>\<open>middle\<close> reads as
  \<^verbatim>\<open>Standard\<close>. The forward table has exactly the four levels as keys; no key of
  the reverse table occurs twice and each of its values is one of the four levels.
\<close>

theorem fan_speed_round_trip:
  "(\<forall>level p s. map_of HA_TO_EUFY_FAN_SPEED_MAP level = Some (p, s) \<longrightarrow>
       map_of EUFY_TO_HA_FAN_SPEED_MAP p = Some level
     \<and> map_of EUFY_TO_HA_FAN_SPEED_MAP s = Some level
     \<and> fan_speed (Some [(''9'', VStr p)]) = Some level
     \<and> fan_speed (Some [(''158'', VStr s)]) = Some level)
   \<and> map fst HA_TO_EUFY_FAN_SPEED_MAP = fan_speed_list
   \<and> map_of EUFY_TO_HA_FAN_SPEED_MAP ''middle'' = Some ''Standard''
   \<and> distinct (map fst EUFY_TO_HA_FAN_SPEED_MAP)
   \<and> (\<forall>token level. map_of EUFY_TO_HA_FAN_SPEED_MAP token = Some level \<longrightarrow>
         level \<in> set fan_speed_list)"
proof (intro conjI allI impI)
  show "map fst HA_TO_EUFY_FAN_SPEED_MAP = fan_speed_list"
    by (simp add: HA_TO_EUFY_FAN_SPEED_MAP_def fan_speed_list_def)
  show "map_of EUFY_TO_HA_FAN_SPEED_MAP ''middle'' = Some ''Standard''"
    by (rule eufy_to_ha_values)
  show "distinct (map fst EUFY_TO_HA_FAN_SPEED_MAP)"
    using fan_speed_keys_distinct by simp
qed (simp_all add: fan_speed_forward_back eufy_to_ha_range)

theorem fan_speed_round_trip_witness:
  "map_of HA_TO_EUFY_FAN_SPEED_MAP ''Maximum'' = Some (''max'', ''Max'')
   \<and> map_of EUFY_TO_HA_FAN_SPEED_MAP ''max'' = Some ''Maximum''
   \<and> map_of EUFY_TO_HA_FAN_SPEED_MAP ''Max'' = Some ''Maximum''
   \<and> fan_speed (Some [(''9'', VStr ''max'')]) = Some ''Maximum''
   \<and> fan_speed (Some [(''158'', VStr ''Max'')]) = Some ''Maximum''
   \<and> ''Maximum'' \<in> set fan_speed_list"
proof -
  have h: "map_of HA_TO_EUFY_FAN_SPEED_MAP ''Maximum'' = Some (''max'', ''Max'')"
    by (simp add: HA_TO_EUFY_FAN_SPEED_MAP_def)
  have r: "map_of EUFY_TO_HA_FAN_SPEED_MAP ''max'' = Some ''Maximum''
     \<and> map_of EUFY_TO_HA_FAN_SPEED_MAP ''Max'' = Some ''Maximum''
     \<and> fan_speed (Some [(''9'', VStr ''max'')]) = Some ''Maximum''
     \<and> fan_speed (Some [(''158'', VStr ''Max'')]) = Some ''Maximum''"
    using fan_speed_round_trip h by blast
  then have "''Maximum'' \<in> set fan_speed_list"
    using fan_speed_round_trip by blast
  with h r show ?thesis by blast
qed

section \<open>Status classification and error code: results\<close>

lemmas action_defs =
  bindS_def returnS_def raiseS_def liftE_def modify_def try_except_def

lemma command_of_values:
  "command_of ''start'' = ''AA==''"
  "command_of ''cleaning'' = ''AggO''"
  "command_of ''pause'' = ''AggN''"
  "command_of ''return'' = ''AggG''"
  by (simp_all add: command_of_def S1_PRO_COMMANDS_def)

lemma async_set_run:
  "async_set E payload s =
     ((case device_write E (writes s) payload of None \<Rightarrow> Inr () | Some e \<Rightarrow> Inl e),
      s\<lparr>writes := writes s @ [(payload, device_write E (writes s) payload)]\<rparr>)"
  by (simp add: async_set_def Let_def split: option.splits)

lemma map_of_dict_get: "map_of d k = Some v \<Longrightarrow> dict_get d k dflt = v"
  by (simp add: dict_get_def)

text \<open>
  C10. When field 6 of the data holds an integer of at least 100, \<^verbatim>\<open>activity\<close>
  reports the error activity, whatever field 153 holds, and \<^verbatim>\<open>error_code\<close> is the
  decimal string of that integer. When field 6 holds anything else, or is absent, or
  there is no data, \<^verbatim>\<open>error_code\<close> is \<^verbatim>\<open>None\<close>.
\<close>

theorem error_field_takes_precedence:
  "(data s = Some d \<and> map_of d ''6'' = Some (VInt n) \<and> 100 \<le> n \<longrightarrow>
      fst (activity E s) = Inr (Some ACT_ERROR)
    \<and> detected_state (snd (activity E s)) = Some ERROR
    \<and> error_code s = Some (str_int n))
   \<and> (\<not> (\<exists>d n. data s = Some d \<and> map_of d ''6'' = Some (VInt n) \<and> 100 \<le> n) \<longrightarrow>
        error_code s = None)"
proof (intro conjI impI)
  assume a: "data s = Some d \<and> map_of d ''6'' = Some (VInt n) \<and> 100 \<le> n"
  then have d: "d \<noteq> []" by auto
  from a have g0: "dict_get d ''6'' (VInt 0) = VInt n" and gN: "dict_get d ''6'' VNone = VInt n"
    by (simp_all add: map_of_dict_get)
  from a d g0 show "fst (activity E s) = Inr (Some ACT_ERROR)"
    by (simp add: activity_def)
  from a d g0 show "detected_state (snd (activity E s)) = Some ERROR"
    by (simp add: activity_def)
  from a d gN show "error_code s = Some (str_int n)"
    by (simp add: error_code_def)
next
  assume n: "\<not> (\<exists>d n. data s = Some d \<and> map_of d ''6'' = Some (VInt n) \<and> 100 \<le> n)"
  show "error_code s = None"
  proof (cases "data s")
    case None
    then show ?thesis by (simp add: error_code_def)
  next
    case (Some d)
    show ?thesis
    proof (cases "map_of d ''6''")
      case None
      with Some show ?thesis by (simp add: error_code_def dict_get_def)
    next
      case (Some v)
      with n \<open>data s = Some d\<close> show ?thesis
        by (cases v) (auto simp add: error_code_def dict_get_def)
    qed
  qed
qed

theorem error_field_takes_precedence_witness:
  "fst (activity reliable_env
          (init_vacuum (Some [(''6'', VInt 105), (''153'', VBytes [0x00, 0x0a, 0x00, 0x10, 0x05])])
             None))
     = Inr (Some ACT_ERROR)
   \<and> error_code
        (init_vacuum (Some [(''6'', VInt 105), (''153'', VBytes [0x00, 0x0a, 0x00, 0x10, 0x05])])
           None)
     = Some ''105''
   \<and> error_code (init_vacuum (Some [(''6'', VInt 3)]) None) = None"
proof -
  let ?d = "[(''6'', VInt 105), (''153'', VBytes [0x00, 0x0a, 0x00, 0x10, 0x05])]"
  have h: "data (init_vacuum (Some ?d) None) = Some ?d \<and> map_of ?d ''6'' = Some (VInt 105)
           \<and> (100::int) \<le> 105"
    by (simp add: init_vacuum_def)
  have s: "str_int 105 = ''105''"
    by (simp add: str_int_def str_nat.simps)
  have n: "\<not> (\<exists>d n. data (init_vacuum (Some [(''6'', VInt 3)]) None) = Some d
                \<and> map_of d ''6'' = Some (VInt n) \<and> 100 \<le> n)"
    by (auto simp add: init_vacuum_def)
  from h s n show ?thesis
    using error_field_takes_precedence
            [of "init_vacuum (Some ?d) None" ?d 105 reliable_env]
          error_field_takes_precedence
            [of "init_vacuum (Some [(''6'', VInt 3)]) None"]
    by simp
qed

section \<open>The paused shadow flag: results\<close>

lemma activity_of_state_flag:
  "activity_of_state st s = (r, s') \<Longrightarrow>
     (r = Inr (Some ACT_PAUSED) \<longrightarrow> was_paused s')
   \<and> (r = Inr (Some ACT_CLEANING) \<or> r = Inr (Some ACT_RETURNING) \<longrightarrow> \<not> was_paused s')
   \<and> (r \<noteq> Inr (Some ACT_PAUSED) \<and> r \<noteq> Inr (Some ACT_CLEANING)
        \<and> r \<noteq> Inr (Some ACT_RETURNING) \<and> r \<noteq> Inr (Some ACT_DOCKED) \<longrightarrow>
        was_paused s' = was_paused s)
   \<and> data s' = data s \<and> writes s' = writes s
   \<and> room_mappings s' = room_mappings s \<and> last_command s' = last_command s"
  by (cases st) (auto simp add: activity_of_state_def action_defs)

lemma activity_fallback_flag:
  "activity_fallback d s = (r, s') \<Longrightarrow>
     (r = Inr (Some ACT_PAUSED) \<longrightarrow> was_paused s')
   \<and> (r = Inr (Some ACT_CLEANING) \<or> r = Inr (Some ACT_RETURNING) \<longrightarrow> \<not> was_paused s')
   \<and> (r \<noteq> Inr (Some ACT_PAUSED) \<and> r \<noteq> Inr (Some ACT_CLEANING)
        \<and> r \<noteq> Inr (Some ACT_RETURNING) \<and> r \<noteq> Inr (Some ACT_DOCKED) \<longrightarrow>
        was_paused s' = was_paused s)
   \<and> data s' = data s \<and> writes s' = writes s
   \<and> room_mappings s' = room_mappings s \<and> last_command s' = last_command s"
  unfolding activity_fallback_def Let_def
  by (cases "ge_int (dict_get d ''8'' (VInt 0)) 95")
     (auto simp add: action_defs split: if_splits)

lemma activity_flag:
  assumes "activity E s = (r, s')"
  shows "(r = Inr (Some ACT_PAUSED) \<longrightarrow> was_paused s')
   \<and> (r = Inr (Some ACT_CLEANING) \<or> r = Inr (Some ACT_RETURNING) \<longrightarrow> \<not> was_paused s')
   \<and> (r \<noteq> Inr (Some ACT_PAUSED) \<and> r \<noteq> Inr (Some ACT_CLEANING)
        \<and> r \<noteq> Inr (Some ACT_RETURNING) \<and> r \<noteq> Inr (Some ACT_DOCKED) \<longrightarrow>
        was_paused s' = was_paused s)
   \<and> data s' = data s \<and> writes s' = writes s
   \<and> room_mappings s' = room_mappings s \<and> last_command s' = last_command s"
proof (cases "data s")
  case None
  with assms show ?thesis by (auto simp add: activity_def)
next
  case (Some d)
  show ?thesis
  proof (cases "d = []")
    case True
    with assms Some show ?thesis by (auto simp add: activity_def)
  next
    case False
    note nonempty = this
    show ?thesis
    proof (cases "is_int (dict_get d ''6'' (VInt 0)) \<and> ge_int (dict_get d ''6'' (VInt 0)) 100 = Inr True")
      case True
      with assms Some nonempty show ?thesis by (auto simp add: activity_def)
    next
      case False
      note no_error = this
      show ?thesis
      proof (cases "truthy (dict_get d ''153'' (VStr []))")
        case False
        with assms Some nonempty no_error
        have "activity_fallback d s = (r, s')" by (simp add: activity_def)
        then show ?thesis by (rule activity_fallback_flag)
      next
        case True
        obtain st sub where dec:
          "decode_dps153_to_state (base64_decode E) (dict_get d ''153'' (VStr [])) = Inr (st, sub)"
          using decode_state_unknown by blast
        let ?s1 = "s\<lparr>detected_state := Some st, substatus := Some sub\<rparr>"
        from assms Some nonempty no_error True dec
        have "activity_of_state st ?s1 = (r, s')"
          by (simp add: activity_def action_defs)
        from activity_of_state_flag [OF this] show ?thesis by simp
      qed
    qed
  qed
qed

text \<open>
  C5, the claim as stated: the status classification never changes the shadow flag.
  It does: with field 152 at the pause token and no field 153, \<^verbatim>\<open>activity\<close> turns a
  false flag into a true one.
\<close>

theorem activity_sets_shadow_flag:
  "\<not> was_paused (init_vacuum (Some [(''152'', VStr ''AggN'')]) None)
   \<and> was_paused (snd (activity reliable_env (init_vacuum (Some [(''152'', VStr ''AggN'')]) None)))"
  by (simp add: init_vacuum_def activity_def activity_fallback_def dict_get_def action_defs
        command_of_values)

text \<open>
  C5, amended. The shadow flag is written by the command methods and by the status
  classification: after \<^verbatim>\<open>activity\<close> reports the paused activity the flag is true,
  after it reports the cleaning or the returning activity the flag is false, and
  when it reports the error or the idle activity, reports nothing or raises, the
  flag is as before. A device write and a refresh leave the flag as it is.
\<close>

theorem shadow_flag_writers:
  "(activity E s = (r, s') \<longrightarrow>
      (r = Inr (Some ACT_PAUSED) \<longrightarrow> was_paused s')
    \<and> (r = Inr (Some ACT_CLEANING) \<or> r = Inr (Some ACT_RETURNING) \<longrightarrow> \<not> was_paused s')
    \<and> (r = Inr (Some ACT_ERROR) \<or> r = Inr (Some ACT_IDLE) \<or> r = Inr None \<or> (\<exists>e. r = Inl e) \<longrightarrow>
         was_paused s' = was_paused s))
   \<and> was_paused (snd (async_set E payload s)) = was_paused s
   \<and> was_paused (snd (async_request_refresh E s)) = was_paused s"
proof (intro conjI impI)
  assume a: "activity E s = (r, s')"
  note f = activity_flag [OF a]
  { assume "r = Inr (Some ACT_PAUSED)"
    with f show "was_paused s'" by blast }
  { assume "r = Inr (Some ACT_CLEANING) \<or> r = Inr (Some ACT_RETURNING)"
    with f show "\<not> was_paused s'" by blast }
  { assume "r = Inr (Some ACT_ERROR) \<or> r = Inr (Some ACT_IDLE) \<or> r = Inr None \<or> (\<exists>e. r = Inl e)"
    then have "r \<noteq> Inr (Some ACT_PAUSED) \<and> r \<noteq> Inr (Some ACT_CLEANING)
        \<and> r \<noteq> Inr (Some ACT_RETURNING) \<and> r \<noteq> Inr (Some ACT_DOCKED)"
      by auto
    with f show "was_paused s' = was_paused s" by blast }
next
  show "was_paused (snd (async_set E payload s)) = was_paused s"
    by (simp add: async_set_run)
  show "was_paused (snd (async_request_refresh E s)) = was_paused s"
    by (simp add: async_request_refresh_def modify_def)
qed

theorem shadow_flag_writers_witness:
  "fst (activity reliable_env (init_vacuum (Some [(''6'', VInt 3), (''7'', VInt 4)]) None))
     = Inr (Some ACT_PAUSED)
   \<and> was_paused (snd (activity reliable_env
        (init_vacuum (Some [(''6'', VInt 3), (''7'', VInt 4)]) None)))"
proof -
  let ?s = "init_vacuum (Some [(''6'', VInt 3), (''7'', VInt 4)]) None"
  have r: "fst (activity reliable_env ?s) = Inr (Some ACT_PAUSED)"
    by (simp add: init_vacuum_def activity_def activity_fallback_def dict_get_def action_defs
          command_of_values)
  have "activity reliable_env ?s = (fst (activity reliable_env ?s), snd (activity reliable_env ?s))"
    by simp
  with r show ?thesis
    using shadow_flag_writers
      [of reliable_env ?s "fst (activity reliable_env ?s)" "snd (activity reliable_env ?s)"]
    by simp
qed

section \<open>Start and resume: results\<close>

lemma send_command_cleaning:
  assumes "send_command E (command_of ''cleaning'') s = (r, s')"
  shows "writes s' = writes s @ [([(''152'', VStr ''AggO'')],
                                  device_write E (writes s) [(''152'', VStr ''AggO'')])]
       \<and> r = (case device_write E (writes s) [(''152'', VStr ''AggO'')] of
                 None \<Rightarrow> Inr () | Some e \<Rightarrow> Inl e)
       \<and> was_paused s' = was_paused s"
  using assms
  by (cases "device_write E (writes s) [(''152'', VStr ''AggO'')]")
     (auto simp add: send_command_def command_of_values async_set_run
        async_request_refresh_def action_defs)

lemma paused_by_dps153_run:
  "\<exists>b. (if truthy v then
          bindS (liftE (decode_dps153_to_state b64 v)) (\<lambda>(detected, sub). returnS (detected = PAUSED))
        else returnS False) s = (Inr b, s)"
proof -
  obtain st sub where "decode_dps153_to_state b64 v = Inr (st, sub)"
    using decode_state_unknown by blast
  then show ?thesis by (cases "truthy v") (auto simp add: action_defs)
qed

text \<open>
  C4, the claim as stated: a start issued while the shadow flag is true performs one
  write and clears the flag. Two runs of the code: with the flag true and field 152
  at the cleaning token, \<^verbatim>\<open>activity\<close>, which \<^verbatim>\<open>async_start\<close> evaluates first, resets
  the flag and the fresh start follows with its three writes; and on the resume
  path, when the write raises, the flag stays true.
\<close>

theorem start_with_flag_runs_fresh_start:
  "was_paused ((init_vacuum (Some [(''152'', VStr ''AggO'')]) None)\<lparr>was_paused := True\<rparr>)
   \<and> map fst (writes (snd (async_start reliable_env
        ((init_vacuum (Some [(''152'', VStr ''AggO'')]) None)\<lparr>was_paused := True\<rparr>))))
     = [[(''152'', VStr ''AA=='')], [(''5'', VStr ''smart'')], [(''152'', VStr ''AggO'')]]
   \<and> fst (async_start failing_env
        ((init_vacuum (Some [(''152'', VStr ''AggN'')]) None)\<lparr>was_paused := True\<rparr>))
     = Inl (OtherError ''timeout'')
   \<and> was_paused (snd (async_start failing_env
        ((init_vacuum (Some [(''152'', VStr ''AggN'')]) None)\<lparr>was_paused := True\<rparr>)))"
  by (simp add: init_vacuum_def reliable_env_def failing_env_def async_start_def activity_def
        activity_fallback_def dict_get_def action_defs command_of_values
        async_turn_on_def send_command_def async_set_run async_request_refresh_def)

text \<open>
  C4, amended. \<^verbatim>\<open>async_start\<close> evaluates \<^verbatim>\<open>activity\<close> first. When the
  coordinator has data, that evaluation returns, and it reports the paused activity,
  or the shadow flag is true after it, or field 152 of the data is the pause token,
  then the start attempts exactly one device write, of the cleaning token to field
  152. When the write succeeds the start
  returns and the flag is false; when it raises, the start raises the same
  exception and the flag is as \<^verbatim>\<open>activity\<close> left it.
\<close>

theorem start_resumes_with_one_write:
  assumes d: "data s = Some d"
      and a: "activity E s = (Inr act, s1)"
      and c: "act = Some ACT_PAUSED \<or> was_paused s1
              \<or> eq_str (dict_get d ''152'' (VStr [])) (command_of ''pause'')"
      and r: "async_start E s = (r, s')"
  shows "writes s' = writes s @ [([(''152'', VStr ''AggO'')],
                                  device_write E (writes s) [(''152'', VStr ''AggO'')])]
       \<and> (device_write E (writes s) [(''152'', VStr ''AggO'')] = None \<longrightarrow>
            r = Inr () \<and> \<not> was_paused s')
       \<and> (\<forall>e. device_write E (writes s) [(''152'', VStr ''AggO'')] = Some e \<longrightarrow>
            r = Inl e \<and> was_paused s' = was_paused s1)"
proof -
  from activity_flag [OF a] have f: "data s1 = data s" "writes s1 = writes s" by simp_all
  obtain b where b:
    "(if truthy (dict_get d ''153'' (VStr [])) then
        bindS (liftE (decode_dps153_to_state (base64_decode E) (dict_get d ''153'' (VStr []))))
          (\<lambda>(detected, sub). returnS (detected = PAUSED))
      else returnS False) s1 = (Inr b, s1)"
    using paused_by_dps153_run by blast
  obtain r2 s2 where s2: "send_command E (command_of ''cleaning'') s1 = (r2, s2)"
    by (cases "send_command E (command_of ''cleaning'') s1")
  from r a d f b c s2
  have res: "(r, s') = (case r2 of Inl e \<Rightarrow> (Inl e, s2) | Inr u \<Rightarrow> (Inr (), s2\<lparr>was_paused := False\<rparr>))"
    unfolding async_start_def
    by (auto simp add: bindS_def modify_def Let_def split: sum.splits)
  from send_command_cleaning [OF s2] f res show ?thesis
    by (cases "device_write E (writes s) [(''152'', VStr ''AggO'')]") auto
qed

theorem start_resumes_with_one_write_witness:
  "writes (snd (async_start reliable_env (init_vacuum (Some [(''152'', VStr ''AggN'')]) None)))
     = [([(''152'', VStr ''AggO'')], None)]
   \<and> fst (async_start reliable_env (init_vacuum (Some [(''152'', VStr ''AggN'')]) None)) = Inr ()
   \<and> \<not> was_paused
         (snd (async_start reliable_env (init_vacuum (Some [(''152'', VStr ''AggN'')]) None)))"
proof -
  let ?d = "[(''152'', VStr ''AggN'')]"
  let ?s = "init_vacuum (Some ?d) None"
  have d: "data ?s = Some ?d"
    by (simp add: init_vacuum_def)
  have a: "activity reliable_env ?s = (Inr (Some ACT_PAUSED), ?s\<lparr>was_paused := True\<rparr>)"
    by (simp add: init_vacuum_def activity_def activity_fallback_def dict_get_def action_defs
          command_of_values)
  have c: "Some ACT_PAUSED = Some ACT_PAUSED \<or> was_paused (?s\<lparr>was_paused := True\<rparr>)
           \<or> eq_str (dict_get ?d ''152'' (VStr [])) (command_of ''pause'')"
    by simp
  have r: "async_start reliable_env ?s
           = (fst (async_start reliable_env ?s), snd (async_start reliable_env ?s))"
    by simp
  have w: "writes ?s = []" "device_write reliable_env [] [(''152'', VStr ''AggO'')] = None"
    by (simp_all add: init_vacuum_def reliable_env_def)
  from start_resumes_with_one_write [OF d a c r] w show ?thesis
    by simp
qed

section \<open>Write failures in the command sequences: results\<close>

lemma propagates_iff:
  "propagates new r \<longleftrightarrow>
     list_all (\<lambda>w. snd w = None) (butlast new)
     \<and> (\<forall>e. new \<noteq> [] \<and> snd (last new) = Some e \<longrightarrow> r = Inl e)"
  by (auto simp add: propagates_def split: option.splits)

lemma run_propagates_silent:
  "writes (snd (m s)) = writes s \<Longrightarrow> run_propagates m s"
  by (simp add: run_propagates_def propagates_iff)

lemma run_propagates_async_set: "run_propagates (async_set E payload) s"
  unfolding run_propagates_def propagates_iff
  by (rule exI [of _ "[(payload, device_write E (writes s) payload)]"])
     (simp add: async_set_run split: option.splits)

lemma propagates_append:
  assumes "propagates new1 (Inr x :: error + 'a)" and "propagates new2 r"
  shows "propagates (new1 @ new2) r"
proof -
  from assms(1) have all1: "list_all (\<lambda>w. snd w = None) new1"
    by (cases new1 rule: rev_cases) (auto simp add: propagates_iff)
  show ?thesis
  proof (cases "new2 = []")
    case True
    with all1 assms(2) show ?thesis
      by (cases new1 rule: rev_cases) (auto simp add: propagates_iff)
  next
    case False
    with all1 assms(2) show ?thesis
      by (auto simp add: propagates_iff butlast_append)
  qed
qed

lemma run_propagates_unfold:
  "run_propagates m s \<Longrightarrow> m s = (r, s1) \<Longrightarrow>
     \<exists>new. writes s1 = writes s @ new \<and> propagates new r"
  unfolding run_propagates_def by simp

lemma run_propagates_fold:
  "m s = (r, s1) \<Longrightarrow> writes s1 = writes s @ new \<Longrightarrow> propagates new r \<Longrightarrow>
     run_propagates m s"
  unfolding run_propagates_def by (rule exI [of _ new]) simp

lemma propagates_Inl:
  "propagates new (Inl e :: error + 'a) \<Longrightarrow> propagates new (Inl e :: error + 'b)"
  by (simp add: propagates_iff)

lemma run_propagates_bindS:
  assumes m: "run_propagates m s"
      and f: "\<And>x s1. m s = (Inr x, s1) \<Longrightarrow> run_propagates (f x) s1"
  shows "run_propagates (bindS m f) s"
proof (cases "m s")
  case (Pair r1 s1)
  from run_propagates_unfold [OF m Pair] obtain new1 where
    n1: "writes s1 = writes s @ new1" and p1: "propagates new1 r1"
    by blast
  show ?thesis
  proof (cases r1)
    case (Inl e)
    have b: "bindS m f s = (Inl e, s1)"
      using Pair Inl by (simp add: bindS_def)
    from p1 Inl have "propagates new1 (Inl e :: error + 'b)"
      by (simp add: propagates_Inl)
    with b n1 show ?thesis
      by (rule run_propagates_fold)
  next
    case (Inr x)
    obtain r2 s2 where fx: "f x s1 = (r2, s2)"
      by (cases "f x s1")
    from Pair Inr have "m s = (Inr x, s1)" by simp
    from run_propagates_unfold [OF f [OF this] fx] obtain new2 where
      n2: "writes s2 = writes s1 @ new2" and p2: "propagates new2 r2"
      by blast
    have b: "bindS m f s = (r2, s2)"
      using Pair Inr fx by (simp add: bindS_def)
    from p1 Inr have "propagates new1 (Inr x :: error + 'a)" by simp
    from propagates_append [OF this p2] have p: "propagates (new1 @ new2) r2" .
    from n1 n2 have n: "writes s2 = writes s @ (new1 @ new2)" by simp
    from b n p show ?thesis
      by (rule run_propagates_fold)
  qed
qed

lemma run_propagates_reraise:
  "run_propagates m s \<Longrightarrow> run_propagates (try_except m (\<lambda>e. raiseS e)) s"
proof -
  have "try_except m (\<lambda>e. raiseS e) s = m s"
    by (cases "m s") (auto simp add: try_except_def raiseS_def split: sum.splits)
  then show "run_propagates m s \<Longrightarrow> ?thesis"
    by (simp add: run_propagates_def)
qed

lemma run_propagates_modify:
  "(\<And>s. writes (f s) = writes s) \<Longrightarrow> run_propagates (modify f) s"
  by (rule run_propagates_silent) (simp add: modify_def)

lemma run_propagates_refresh: "run_propagates (async_request_refresh E) s"
  by (rule run_propagates_silent) (simp add: async_request_refresh_def modify_def)

lemma run_propagates_returnS: "run_propagates (returnS x) s"
  by (rule run_propagates_silent) (simp add: returnS_def)

lemma run_propagates_raiseS: "run_propagates (raiseS e) s"
  by (rule run_propagates_silent) (simp add: raiseS_def)

lemma run_propagates_liftE: "run_propagates (liftE r) s"
  by (rule run_propagates_silent) (simp add: liftE_def)

lemma run_propagates_send_command: "run_propagates (send_command E command) s"
  unfolding send_command_def
  apply (rule run_propagates_reraise)
  apply (rule run_propagates_bindS)
   apply (rule run_propagates_modify)
   apply simp
  apply (rule run_propagates_bindS)
   apply (rule run_propagates_async_set)
  apply (rule run_propagates_bindS)
   apply (simp add: run_propagates_async_set run_propagates_returnS)
  apply (rule run_propagates_refresh)
  done

lemma run_propagates_turn_on: "run_propagates (async_turn_on E) s"
  unfolding async_turn_on_def
  apply (rule run_propagates_reraise)
  apply (rule run_propagates_bindS)
   apply (rule run_propagates_modify)
   apply simp
  apply (rule run_propagates_bindS)
   apply (rule run_propagates_send_command)
  apply (rule run_propagates_bindS)
   apply (rule run_propagates_send_command)
  apply (rule run_propagates_refresh)
  done

lemma run_propagates_activity: "run_propagates (activity E) s"
proof (rule run_propagates_silent)
  have "activity E s = (fst (activity E s), snd (activity E s))" by simp
  from activity_flag [OF this] show "writes (snd (activity E s)) = writes s" by simp
qed

lemma run_propagates_paused_by_dps153:
  "run_propagates
     (if truthy v then
        bindS (liftE (decode_dps153_to_state b64 v)) (\<lambda>(detected, sub). returnS (detected = PAUSED))
      else returnS False) s"
proof (rule run_propagates_silent)
  from paused_by_dps153_run [of v b64 s] show
    "writes (snd ((if truthy v then
        bindS (liftE (decode_dps153_to_state b64 v)) (\<lambda>(detected, sub). returnS (detected = PAUSED))
      else returnS False) s)) = writes s"
    by auto
qed

lemma run_propagates_start: "run_propagates (async_start E) s"
  unfolding async_start_def
proof (rule run_propagates_bindS [OF run_propagates_activity])
  fix act s1
  show "run_propagates
          (\<lambda>s. case data s of
                 None \<Rightarrow> (Inl AttributeError, s)
               | Some d \<Rightarrow>
                   (let current_dps152 = dict_get d ''152'' (VStr []);
                        current_dps153 = dict_get d ''153'' (VStr [])
                    in
                      bindS (if truthy current_dps153 then
                               bindS (liftE (decode_dps153_to_state (base64_decode E) current_dps153))
                                 (\<lambda>(detected, sub). returnS (detected = PAUSED))
                             else returnS False) (\<lambda>is_paused_by_dps153. \<lambda>s.
                        if act = Some ACT_PAUSED \<or> was_paused s \<or> is_paused_by_dps153
                           \<or> eq_str current_dps152 (command_of ''pause'') then
                          bindS (send_command E (command_of ''cleaning'')) (\<lambda>_.
                            modify (\<lambda>s. s\<lparr>was_paused := False\<rparr>)) s
                        else async_turn_on E s) s)) s1"
  proof (cases "data s1")
    case None
    then show ?thesis
      by (intro run_propagates_silent) simp
  next
    case (Some d)
    have inner: "run_propagates
           (\<lambda>s. if act = Some ACT_PAUSED \<or> was_paused s \<or> b
                    \<or> eq_str (dict_get d ''152'' (VStr [])) (command_of ''pause'') then
                  bindS (send_command E (command_of ''cleaning'')) (\<lambda>_.
                    modify (\<lambda>s. s\<lparr>was_paused := False\<rparr>)) s
                else async_turn_on E s) s2" for b s2
    proof (cases "act = Some ACT_PAUSED \<or> was_paused s2 \<or> b
                    \<or> eq_str (dict_get d ''152'' (VStr [])) (command_of ''pause'')")
      case True
      have "run_propagates (bindS (send_command E (command_of ''cleaning'')) (\<lambda>_.
                    modify (\<lambda>s. s\<lparr>was_paused := False\<rparr>))) s2"
        by (rule run_propagates_bindS [OF run_propagates_send_command])
           (rule run_propagates_modify, simp)
      with True show ?thesis by (simp add: run_propagates_def)
    next
      case False
      with run_propagates_turn_on [of E s2] show ?thesis by (simp add: run_propagates_def)
    qed
    have "run_propagates
            (bindS (if truthy (dict_get d ''153'' (VStr [])) then
                      bindS (liftE (decode_dps153_to_state (base64_decode E) (dict_get d ''153'' (VStr []))))
                        (\<lambda>(detected, sub). returnS (detected = PAUSED))
                    else returnS False) (\<lambda>is_paused_by_dps153. \<lambda>s.
               if act = Some ACT_PAUSED \<or> was_paused s \<or> is_paused_by_dps153
                  \<or> eq_str (dict_get d ''152'' (VStr [])) (command_of ''pause'') then
                 bindS (send_command E (command_of ''cleaning'')) (\<lambda>_.
                   modify (\<lambda>s. s\<lparr>was_paused := False\<rparr>)) s
               else async_turn_on E s)) s1"
      by (rule run_propagates_bindS [OF run_propagates_paused_by_dps153]) (rule inner)
    with Some show ?thesis by (simp add: run_propagates_def Let_def)
  qed
qed


lemma run_propagates_clean_room: "run_propagates (handle_clean_room_command E params) s"
proof (cases "case params of None \<Rightarrow> None | Some ps \<Rightarrow> map_of ps ''room_id''")
  case None
  then show ?thesis
    by (intro run_propagates_silent) (simp add: handle_clean_room_command_def)
next
  case (Some room_id)
  note rid = this
  let ?m = "case room_mappings s of None \<Rightarrow> [] | Some m \<Rightarrow> m"
  show ?thesis
  proof (cases "?m = []")
    case True
    with rid show ?thesis
      by (intro run_propagates_silent) (simp add: handle_clean_room_command_def)
  next
    case False
    note table = this
    show ?thesis
    proof (cases "map_of ?m (py_str room_id)")
      case None
      with rid table show ?thesis
        by (intro run_propagates_silent) (simp add: handle_clean_room_command_def)
    next
      case (Some dps173_value)
      have seq: "run_propagates
              (try_except
                 (bindS (async_set E [(''173'', dps173_value)]) (\<lambda>_.
                  bindS (modify (\<lambda>s. s\<lparr>was_paused := False\<rparr>)) (\<lambda>_.
                  bindS (send_command E (command_of ''start'')) (\<lambda>_.
                  bindS (send_command E (command_of ''cleaning'')) (\<lambda>_.
                  async_request_refresh E)))))
                 (\<lambda>e. raiseS e)) s"
        apply (rule run_propagates_reraise)
        apply (rule run_propagates_bindS)
         apply (rule run_propagates_async_set)
        apply (rule run_propagates_bindS)
         apply (rule run_propagates_modify)
         apply simp
        apply (rule run_propagates_bindS)
         apply (rule run_propagates_send_command)
        apply (rule run_propagates_bindS)
         apply (rule run_propagates_send_command)
        apply (rule run_propagates_refresh)
        done
      from rid table Some have
        "handle_clean_room_command E params s =
           try_except
             (bindS (async_set E [(''173'', dps173_value)]) (\<lambda>_.
              bindS (modify (\<lambda>s. s\<lparr>was_paused := False\<rparr>)) (\<lambda>_.
              bindS (send_command E (command_of ''start'')) (\<lambda>_.
              bindS (send_command E (command_of ''cleaning'')) (\<lambda>_.
              async_request_refresh E)))))
             (\<lambda>e. raiseS e) s"
        by (simp add: handle_clean_room_command_def)
      with seq show ?thesis by (simp add: run_propagates_def)
    qed
  qed
qed

lemma absorbed_run:
  assumes m: "run_propagates m s"
      and h: "\<And>e s1. writes (snd (h e s1)) = writes s1 \<and> fst (h e s1) = Inr ()"
  shows "\<exists>new. writes (snd (try_except m h s)) = writes s @ new
           \<and> list_all (\<lambda>w. snd w = None) (butlast new)
           \<and> fst (try_except m h s) = Inr ()
           \<and> (\<forall>e. new \<noteq> [] \<and> snd (last new) = Some e \<longrightarrow>
                 try_except m h s = h e (snd (m s)))"
proof (cases "m s")
  case (Pair r s1)
  from run_propagates_unfold [OF m Pair] obtain new where
    n: "writes s1 = writes s @ new" and p: "propagates new r"
    by blast
  show ?thesis
  proof (cases r)
    case (Inl e)
    with Pair have t: "try_except m h s = h e s1"
      by (simp add: try_except_def)
    from p Inl have "\<forall>e'. new \<noteq> [] \<and> snd (last new) = Some e' \<longrightarrow> e' = e"
      by (simp add: propagates_iff)
    with t n p h [of e s1] Pair show ?thesis
      by (intro exI [of _ new]) (auto simp add: propagates_iff)
  next
    case (Inr u)
    with Pair have t: "try_except m h s = (Inr (), s1)"
      by (simp add: try_except_def)
    from p Inr have "\<forall>e'. \<not> (new \<noteq> [] \<and> snd (last new) = Some e')"
      by (simp add: propagates_iff)
    with t n p show ?thesis
      by (intro exI [of _ new]) (auto simp add: propagates_iff)
  qed
qed

lemma pause_body_propagates:
  "run_propagates (bindS (modify (\<lambda>s. s\<lparr>was_paused := b\<rparr>)) (\<lambda>_. send_command E c)) s"
  by (rule run_propagates_bindS [OF run_propagates_modify run_propagates_send_command]) simp

lemma pause_absorbs:
  "\<exists>new. writes (snd (async_pause E s)) = writes s @ new
        \<and> list_all (\<lambda>w. snd w = None) (butlast new)
        \<and> fst (async_pause E s) = Inr ()
        \<and> (\<forall>e. new \<noteq> [] \<and> snd (last new) = Some e \<longrightarrow> \<not> was_paused (snd (async_pause E s)))"
proof -
  let ?m = "bindS (modify (\<lambda>s. s\<lparr>was_paused := True\<rparr>)) (\<lambda>_. send_command E (command_of ''pause''))"
  let ?h = "\<lambda>e :: error. modify (\<lambda>s. s\<lparr>was_paused := False\<rparr>)"
  have "\<exists>new. writes (snd (try_except ?m ?h s)) = writes s @ new
           \<and> list_all (\<lambda>w. snd w = None) (butlast new)
           \<and> fst (try_except ?m ?h s) = Inr ()
           \<and> (\<forall>e. new \<noteq> [] \<and> snd (last new) = Some e \<longrightarrow>
                 try_except ?m ?h s = ?h e (snd (?m s)))"
    by (rule absorbed_run [OF pause_body_propagates]) (simp add: modify_def)
  then obtain new where
    n: "writes (snd (try_except ?m ?h s)) = writes s @ new"
       "list_all (\<lambda>w. snd w = None) (butlast new)"
       "fst (try_except ?m ?h s) = Inr ()"
       "\<forall>e. new \<noteq> [] \<and> snd (last new) = Some e \<longrightarrow> try_except ?m ?h s = ?h e (snd (?m s))"
    by blast
  have "\<forall>e. new \<noteq> [] \<and> snd (last new) = Some e \<longrightarrow> \<not> was_paused (snd (try_except ?m ?h s))"
  proof (intro allI impI)
    fix e assume "new \<noteq> [] \<and> snd (last new) = Some e"
    with n(4) have "try_except ?m ?h s = ?h e (snd (?m s))" by blast
    then show "\<not> was_paused (snd (try_except ?m ?h s))" by (simp add: modify_def)
  qed
  with n(1,2,3) show ?thesis
    unfolding async_pause_def by (intro exI [of _ new]) simp
qed

lemma return_absorbs:
  "\<exists>new. writes (snd (async_return_to_base E s)) = writes s @ new
        \<and> list_all (\<lambda>w. snd w = None) (butlast new)
        \<and> fst (async_return_to_base E s) = Inr ()"
proof -
  let ?m = "bindS (modify (\<lambda>s. s\<lparr>was_paused := False\<rparr>)) (\<lambda>_. send_command E (command_of ''return''))"
  let ?h = "\<lambda>e :: error. returnS ()"
  have "\<exists>new. writes (snd (try_except ?m ?h s)) = writes s @ new
           \<and> list_all (\<lambda>w. snd w = None) (butlast new)
           \<and> fst (try_except ?m ?h s) = Inr ()
           \<and> (\<forall>e. new \<noteq> [] \<and> snd (last new) = Some e \<longrightarrow>
                 try_except ?m ?h s = ?h e (snd (?m s)))"
    by (rule absorbed_run [OF pause_body_propagates]) (simp add: returnS_def)
  then show ?thesis
    unfolding async_return_to_base_def by blast
qed

lemma propagating_run:
  "run_propagates m s \<Longrightarrow>
     \<exists>new. writes (snd (m s)) = writes s @ new
         \<and> list_all (\<lambda>w. snd w = None) (butlast new)
         \<and> (\<forall>e. new \<noteq> [] \<and> snd (last new) = Some e \<longrightarrow> fst (m s) = Inl e)"
  unfolding run_propagates_def propagates_iff by blast


text \<open>
  C6, the claim as stated: in every intent a write failure reaches the caller. On a
  transport where every write raises, \<^verbatim>\<open>async_pause\<close> and \<^verbatim>\<open>async_return_to_base\<close>
  attempt their first write and return normally.
\<close>

theorem pause_and_return_absorb_failure:
  "fst (async_pause failing_env (init_vacuum (Some [(''152'', VStr ''AggO'')]) None)) = Inr ()
   \<and> writes (snd (async_pause failing_env (init_vacuum (Some [(''152'', VStr ''AggO'')]) None)))
       = [([(''152'', VStr ''AggN'')], Some (OtherError ''timeout''))]
   \<and> fst (async_return_to_base failing_env (init_vacuum (Some [(''152'', VStr ''AggO'')]) None))
       = Inr ()
   \<and> writes (snd (async_return_to_base failing_env
         (init_vacuum (Some [(''152'', VStr ''AggO'')]) None)))
       = [([(''152'', VStr ''AggG'')], Some (OtherError ''timeout''))]"
  by (simp add: init_vacuum_def failing_env_def async_pause_def async_return_to_base_def
        send_command_def async_set_run async_request_refresh_def action_defs command_of_values)

text \<open>
  C6, amended. In every intent the writes of the run are added to the device's log
  (nothing is taken back) and every write but the last one attempted succeeded: a
  write that raises ends the sequence. For start, fresh start and clean-room the
  exception of the failed write is what the method raises. Pause, stop, turn-off
  and return-to-dock return normally whatever the writes did, and after a failed
  write pause leaves the shadow flag false.
\<close>

theorem write_failure_ends_sequence:
  "(\<forall>m \<in> {async_start E, async_turn_on E, handle_clean_room_command E params,
            async_send_command E ''clean_room'' params}.
      \<exists>new. writes (snd (m s)) = writes s @ new
          \<and> list_all (\<lambda>w. snd w = None) (butlast new)
          \<and> (\<forall>e. new \<noteq> [] \<and> snd (last new) = Some e \<longrightarrow> fst (m s) = Inl e))
   \<and> (\<forall>m \<in> {async_pause E, async_stop E, async_turn_off E, async_return_to_base E}.
      \<exists>new. writes (snd (m s)) = writes s @ new
          \<and> list_all (\<lambda>w. snd w = None) (butlast new)
          \<and> fst (m s) = Inr ())
   \<and> (\<forall>new e. writes (snd (async_pause E s)) = writes s @ new
          \<and> new \<noteq> [] \<and> snd (last new) = Some e \<longrightarrow> \<not> was_paused (snd (async_pause E s)))"
proof (intro conjI ballI)
  fix m
  assume "m \<in> {async_start E, async_turn_on E, handle_clean_room_command E params,
                async_send_command E ''clean_room'' params}"
  then have "run_propagates m s"
    by (auto simp add: run_propagates_start run_propagates_turn_on run_propagates_clean_room
          async_send_command_def)
  then show "\<exists>new. writes (snd (m s)) = writes s @ new
          \<and> list_all (\<lambda>w. snd w = None) (butlast new)
          \<and> (\<forall>e. new \<noteq> [] \<and> snd (last new) = Some e \<longrightarrow> fst (m s) = Inl e)"
    by (rule propagating_run)
next
  fix m
  assume "m \<in> {async_pause E, async_stop E, async_turn_off E, async_return_to_base E}"
  then consider "m = async_pause E" | "m = async_return_to_base E"
    by (auto simp add: async_stop_def async_turn_off_def)
  then show "\<exists>new. writes (snd (m s)) = writes s @ new
          \<and> list_all (\<lambda>w. snd w = None) (butlast new)
          \<and> fst (m s) = Inr ()"
  proof cases
    case 1
    with pause_absorbs [of E s] show ?thesis by blast
  next
    case 2
    with return_absorbs [of E s] show ?thesis by blast
  qed
next
  from pause_absorbs [of E s] obtain new0 where
    n: "writes (snd (async_pause E s)) = writes s @ new0"
       "\<forall>e. new0 \<noteq> [] \<and> snd (last new0) = Some e \<longrightarrow> \<not> was_paused (snd (async_pause E s))"
    by blast
  show "\<forall>new e. writes (snd (async_pause E s)) = writes s @ new
          \<and> new \<noteq> [] \<and> snd (last new) = Some e \<longrightarrow> \<not> was_paused (snd (async_pause E s))"
  proof (intro allI impI)
    fix new e
    assume a: "writes (snd (async_pause E s)) = writes s @ new \<and> new \<noteq> [] \<and> snd (last new) = Some e"
    with n(1) have "new = new0" by simp
    with a n(2) show "\<not> was_paused (snd (async_pause E s))" by blast
  qed
qed

lemma fresh_start_second_write_fails:
  "writes (snd (async_start second_write_fails_env (init_vacuum (Some [(''8'', VInt 100)]) None)))
     = [([(''152'', VStr ''AA=='')], None), ([(''5'', VStr ''smart'')], Some (OtherError ''timeout''))]"
  by (simp add: init_vacuum_def second_write_fails_env_def async_start_def activity_def
        activity_fallback_def dict_get_def action_defs command_of_values
        async_turn_on_def send_command_def async_set_run async_request_refresh_def)

theorem write_failure_ends_sequence_witness:
  "writes (snd (async_start second_write_fails_env (init_vacuum (Some [(''8'', VInt 100)]) None)))
     = [([(''152'', VStr ''AA=='')], None), ([(''5'', VStr ''smart'')], Some (OtherError ''timeout''))]
   \<and> fst (async_start second_write_fails_env (init_vacuum (Some [(''8'', VInt 100)]) None))
     = Inl (OtherError ''timeout'')
   \<and> fst (async_stop second_write_fails_env (init_vacuum (Some [(''8'', VInt 100)]) None))
     = Inr ()"
proof -
  let ?s = "init_vacuum (Some [(''8'', VInt 100)]) None"
  let ?E = "second_write_fails_env"
  note t = write_failure_ends_sequence [of ?E "None" ?s]
  have s: "async_start ?E \<in> {async_start ?E, async_turn_on ?E, handle_clean_room_command ?E None,
            async_send_command ?E ''clean_room'' None}"
    by simp
  have p: "async_stop ?E \<in> {async_pause ?E, async_stop ?E, async_turn_off ?E, async_return_to_base ?E}"
    by simp
  from t s obtain new where
    n: "writes (snd (async_start ?E ?s)) = writes ?s @ new"
       "\<forall>e. new \<noteq> [] \<and> snd (last new) = Some e \<longrightarrow> fst (async_start ?E ?s) = Inl e"
    by blast
  have w: "writes ?s = []" by (simp add: init_vacuum_def)
  from n(1) w fresh_start_second_write_fails
  have "new = [([(''152'', VStr ''AA=='')], None), ([(''5'', VStr ''smart'')], Some (OtherError ''timeout''))]"
    by simp
  then have "new \<noteq> [] \<and> snd (last new) = Some (OtherError ''timeout'')" by simp
  with n(2) have r: "fst (async_start ?E ?s) = Inl (OtherError ''timeout'')" by blast
  from t p have "fst (async_stop ?E ?s) = Inr ()" by blast
  with r fresh_start_second_write_fails show ?thesis by simp
qed
section \<open>Room selection: results\<close>

lemma sublist_join: "k \<in> set ks \<Longrightarrow> sublist k (join sep ks)"
proof (induction sep ks rule: join.induct)
  case (1 sep)
  then show ?case by simp
next
  case (2 sep x)
  then show ?case by simp
next
  case (3 sep x y ys)
  show ?case
  proof (cases "k = x")
    case True
    then show ?thesis by simp
  next
    case False
    with 3 have "sublist k (join sep (y # ys))" by simp
    then obtain ps ss where "join sep (y # ys) = ps @ k @ ss"
      by (auto simp add: sublist_def)
    then have "join sep (x # y # ys) = (x @ sep @ ps) @ k @ ss" by simp
    then show ?thesis unfolding sublist_def by blast
  qed
qed

lemma sublist_trans': "sublist a b \<Longrightarrow> sublist b c \<Longrightarrow> sublist a c"
  by (rule sublist_order.order.trans)

lemma room_not_found_lists_keys:
  "sublist (join '', '' (map fst m)) (room_not_found_message room_id m)"
proof (cases "join '', '' (map fst m) = []")
  case True
  then show ?thesis by simp
next
  case False
  then have "room_not_found_message room_id m =
      (''Room ID '' @ [CHR 0x27] @ py_str room_id @ [CHR 0x27]
           @ '' not found in configured rooms. '' @ ''Available rooms: '')
      @ join '', '' (map fst m)
      @ (''. '' @ ''Please add this room via Settings -> Devices & Services -> ''
           @ ''Eufy RoboVac S1 Pro -> Configure.'')"
    by (simp add: room_not_found_message_def Let_def)
  then obtain ps ss where
    "room_not_found_message room_id m = ps @ join '', '' (map fst m) @ ss"
    by blast
  then show ?thesis unfolding sublist_def by blast
qed

lemma no_room_mappings_message_tells:
  "no_room_mappings_message \<noteq> []
   \<and> sublist ''3. Add your room mappings in JSON format'' no_room_mappings_message"
proof -
  have "no_room_mappings_message =
     (''No room mappings configured. Please add room mappings by:\<newline>''
     @ ''1. Go to Settings -> Devices & Services -> Eufy RoboVac S1 Pro\<newline>''
     @ ''2. Click 'Configure' on the integration\<newline>'')
     @ ''3. Add your room mappings in JSON format''
     @ (''\<newline>'' @ ''\<newline>''
     @ ''To get DPS 173 values:\<newline>''
     @ ''1. Enable debug logging for custom_components.eufy_robovac_s1_pro\<newline>''
     @ ''2. Use the Eufy app to start cleaning a specific room\<newline>''
     @ ''3. Find the DPS 173 value in Home Assistant logs\<newline>''
     @ ''4. Add it to the room mappings configuration'')"
    by (simp add: no_room_mappings_message_def)
  then obtain ps ss where
    "no_room_mappings_message = ps @ ''3. Add your room mappings in JSON format'' @ ss"
    by blast
  then have "sublist ''3. Add your room mappings in JSON format'' no_room_mappings_message"
    unfolding sublist_def by blast
  moreover have "no_room_mappings_message \<noteq> []"
    by (simp add: no_room_mappings_message_def)
  ultimately show ?thesis by simp
qed

lemma clean_room_selection_write:
  assumes rid: "map_of ps ''room_id'' = Some room_id"
      and tab: "room_mappings s = Some m"
      and key: "map_of m (py_str room_id) = Some v"
  shows "\<exists>rest. writes (snd (handle_clean_room_command E (Some ps) s))
           = writes s @ ([(''173'', v)], device_write E (writes s) [(''173'', v)]) # rest"
proof -
  let ?k = "\<lambda>u :: unit.
              bindS (modify (\<lambda>s. s\<lparr>was_paused := False\<rparr>)) (\<lambda>_.
              bindS (send_command E (command_of ''start'')) (\<lambda>_.
              bindS (send_command E (command_of ''cleaning'')) (\<lambda>_.
              async_request_refresh E)))"
  let ?s1 = "s\<lparr>writes := writes s @ [([(''173'', v)], device_write E (writes s) [(''173'', v)])]\<rparr>"
  from key have ne: "m \<noteq> []" by auto
  from rid tab key ne have h: "handle_clean_room_command E (Some ps) s =
      try_except (bindS (async_set E [(''173'', v)]) ?k) (\<lambda>e. raiseS e) s"
    by (simp add: handle_clean_room_command_def)
  show ?thesis
  proof (cases "device_write E (writes s) [(''173'', v)]")
    case (Some e)
    with h have "handle_clean_room_command E (Some ps) s = (Inl e, ?s1)"
      by (simp add: try_except_def bindS_def async_set_run raiseS_def)
    then show ?thesis by simp
  next
    case None
    have k: "run_propagates (?k ()) ?s1"
      apply (rule run_propagates_bindS)
       apply (rule run_propagates_modify)
       apply simp
      apply (rule run_propagates_bindS)
       apply (rule run_propagates_send_command)
      apply (rule run_propagates_bindS)
       apply (rule run_propagates_send_command)
      apply (rule run_propagates_refresh)
      done
    then obtain new where n: "writes (snd (?k () ?s1)) = writes ?s1 @ new"
      unfolding run_propagates_def by blast
    from None h have "snd (handle_clean_room_command E (Some ps) s) = snd (?k () ?s1)"
      by (cases "?k () ?s1")
         (auto simp add: try_except_def bindS_def async_set_run raiseS_def split: sum.splits)
    with n show ?thesis by simp
  qed
qed

text \<open>
  C9. \<^verbatim>\<open>clean_room\<close> for a room id, when the options hold no room table or an empty
  one: the method raises the ValueError whose message says that no room mappings are
  configured; the message is not empty and tells the operator to add the mappings in
  JSON format. When the table has entries and the string of the room id is not one
  of its keys: the method raises the ValueError whose message names the room id and
  lists the configured keys, joined by commas. In both cases the state is unchanged,
  so no device write is made. The key is compared as the exact string: when it is a
  key, the first write is the selection payload of that key to field 173.
\<close>

theorem clean_room_lookup_failures:
  assumes rid: "map_of ps ''room_id'' = Some room_id"
  shows
  "(room_mappings s = None \<or> room_mappings s = Some [] \<longrightarrow>
      handle_clean_room_command E (Some ps) s = (Inl (ValueError no_room_mappings_message), s)
    \<and> no_room_mappings_message \<noteq> []
    \<and> sublist ''3. Add your room mappings in JSON format'' no_room_mappings_message)
   \<and> (room_mappings s = Some m \<and> m \<noteq> [] \<and> py_str room_id \<notin> fst ` set m \<longrightarrow>
      handle_clean_room_command E (Some ps) s
        = (Inl (ValueError (room_not_found_message room_id m)), s)
    \<and> sublist (join '', '' (map fst m)) (room_not_found_message room_id m)
    \<and> (\<forall>k \<in> fst ` set m. sublist k (room_not_found_message room_id m)))
   \<and> (room_mappings s = Some m \<and> map_of m (py_str room_id) = Some v \<longrightarrow>
      (\<exists>rest. writes (snd (handle_clean_room_command E (Some ps) s))
           = writes s @ ([(''173'', v)], device_write E (writes s) [(''173'', v)]) # rest))"
proof (intro conjI impI)
  assume "room_mappings s = None \<or> room_mappings s = Some []"
  with rid show "handle_clean_room_command E (Some ps) s
                   = (Inl (ValueError no_room_mappings_message), s)"
    by (auto simp add: handle_clean_room_command_def)
next
  show "no_room_mappings_message \<noteq> []"
    using no_room_mappings_message_tells by simp
  show "sublist ''3. Add your room mappings in JSON format'' no_room_mappings_message"
    using no_room_mappings_message_tells by simp
next
  assume a: "room_mappings s = Some m \<and> m \<noteq> [] \<and> py_str room_id \<notin> fst ` set m"
  then have "map_of m (py_str room_id) = None"
    by (simp add: map_of_eq_None_iff)
  with a rid show "handle_clean_room_command E (Some ps) s
        = (Inl (ValueError (room_not_found_message room_id m)), s)"
    by (simp add: handle_clean_room_command_def)
next
  show "sublist (join '', '' (map fst m)) (room_not_found_message room_id m)"
    by (rule room_not_found_lists_keys)
  show "\<forall>k \<in> fst ` set m. sublist k (room_not_found_message room_id m)"
  proof
    fix k assume "k \<in> fst ` set m"
    then have "k \<in> set (map fst m)" by simp
    then have "sublist k (join '', '' (map fst m))" by (rule sublist_join)
    then show "sublist k (room_not_found_message room_id m)"
      using room_not_found_lists_keys by (rule sublist_trans')
  qed
next
  assume "room_mappings s = Some m \<and> map_of m (py_str room_id) = Some v"
  with rid show "\<exists>rest. writes (snd (handle_clean_room_command E (Some ps) s))
           = writes s @ ([(''173'', v)], device_write E (writes s) [(''173'', v)]) # rest"
    using clean_room_selection_write by blast
qed


theorem clean_room_lookup_failures_witness:
  "handle_clean_room_command reliable_env (Some [(''room_id'', VStr ''kitchen'')])
       (init_vacuum None None)
     = (Inl (ValueError no_room_mappings_message), init_vacuum None None)
   \<and> handle_clean_room_command reliable_env (Some [(''room_id'', VStr ''kitchen'')])
       (init_vacuum None (Some [(''Kitchen'', VStr ''MAom''), (''closet'', VStr ''Nwor'')]))
     = (Inl (ValueError (room_not_found_message (VStr ''kitchen'')
               [(''Kitchen'', VStr ''MAom''), (''closet'', VStr ''Nwor'')])),
        init_vacuum None (Some [(''Kitchen'', VStr ''MAom''), (''closet'', VStr ''Nwor'')]))
   \<and> sublist ''Kitchen, closet''
         (room_not_found_message (VStr ''kitchen'')
            [(''Kitchen'', VStr ''MAom''), (''closet'', VStr ''Nwor'')])
   \<and> hd (writes (snd (handle_clean_room_command reliable_env
                  (Some [(''room_id'', VStr ''closet'')])
                  (init_vacuum None (Some [(''Kitchen'', VStr ''MAom''), (''closet'', VStr ''Nwor'')])))))
          = ([(''173'', VStr ''Nwor'')], None)"
proof -
  let ?m = "[(''Kitchen'', VStr ''MAom''), (''closet'', VStr ''Nwor'')]"
  let ?s = "init_vacuum None (Some ?m)"
  have k: "map_of [(''room_id'', VStr ''kitchen'')] ''room_id'' = Some (VStr ''kitchen'')"
    and c: "map_of [(''room_id'', VStr ''closet'')] ''room_id'' = Some (VStr ''closet'')"
    by simp_all
  have a: "room_mappings (init_vacuum None None) = None \<or> room_mappings (init_vacuum None None) = Some []"
    by (simp add: init_vacuum_def)
  have b: "room_mappings ?s = Some ?m \<and> ?m \<noteq> [] \<and> py_str (VStr ''kitchen'') \<notin> fst ` set ?m"
    by (simp add: init_vacuum_def)
  have d: "room_mappings ?s = Some ?m \<and> map_of ?m (py_str (VStr ''closet'')) = Some (VStr ''Nwor'')"
    by (simp add: init_vacuum_def)
  have j: "join '', '' (map fst ?m) = ''Kitchen, closet''"
    by simp
  have w: "writes ?s = []" "device_write reliable_env [] [(''173'', VStr ''Nwor'')] = None"
    by (simp_all add: init_vacuum_def reliable_env_def)
  from clean_room_lookup_failures [OF k, where s = "init_vacuum None None" and E = reliable_env] a
  have 1: "handle_clean_room_command reliable_env (Some [(''room_id'', VStr ''kitchen'')])
             (init_vacuum None None)
           = (Inl (ValueError no_room_mappings_message), init_vacuum None None)"
    by blast
  from clean_room_lookup_failures [OF k, where s = ?s and m = ?m and E = reliable_env] b
  have 2: "handle_clean_room_command reliable_env (Some [(''room_id'', VStr ''kitchen'')]) ?s
             = (Inl (ValueError (room_not_found_message (VStr ''kitchen'') ?m)), ?s)"
    and 3: "sublist (join '', '' (map fst ?m)) (room_not_found_message (VStr ''kitchen'') ?m)"
    by blast+
  from clean_room_lookup_failures
         [OF c, where s = ?s and m = ?m and v = "VStr ''Nwor''" and E = reliable_env] d
  have "\<exists>rest. writes (snd (handle_clean_room_command reliable_env
                  (Some [(''room_id'', VStr ''closet'')]) ?s))
          = writes ?s @ ([(''173'', VStr ''Nwor'')],
                         device_write reliable_env (writes ?s) [(''173'', VStr ''Nwor'')]) # rest"
    by blast
  with w have 4: "\<exists>rest. writes (snd (handle_clean_room_command reliable_env
                  (Some [(''room_id'', VStr ''closet'')]) ?s))
          = ([(''173'', VStr ''Nwor'')], None) # rest"
    by simp
  from 4 have 5: "hd (writes (snd (handle_clean_room_command reliable_env
                  (Some [(''room_id'', VStr ''closet'')]) ?s)))
          = ([(''173'', VStr ''Nwor'')], None)"
    by auto
  from 1 2 3 5 j show ?thesis by simp
qed
end
